theory Spec2Isabelle
  imports Complex_Main
begin

section \<open>Python values, errors and slices\<close>

text \<open>
  The exceptions the modelled code raises itself (\<open>ValueError\<close>, \<open>NotImplementedError\<close>,
  a failed \<open>assert\<close>) or that the array library raises under it (\<open>IndexError\<close> for an
  index out of range, \<open>AttributeError\<close> for a missing attribute, \<open>RuntimeError\<close> for a
  reshape that does not fit, \<open>ZeroDivisionError\<close> for a division by zero).
\<close>

datatype py_error =
  ValueError | IndexError | AttributeError | AssertionError | NotImplementedError |
  RuntimeError | ZeroDivisionError

text \<open>
  The elements of an array of dtype \<open>object\<close>: the layouts hold strings, integers and
  \<open>None\<close>. \<open>truthy\<close> is Python's \<open>bool(x)\<close>, which \<open>.astype(bool)\<close> applies to each
  element.
\<close>

datatype pyobj = PyNone | PyStr string | PyInt int

fun truthy :: "pyobj \<Rightarrow> bool" where
  "truthy PyNone = False"
| "truthy (PyStr s) = (s \<noteq> [])"
| "truthy (PyInt i) = (i \<noteq> 0)"

text \<open>
  A slice \<open>xs[a:b]\<close> with step 1: a negative bound counts from the end, and every bound is
  clamped to the length, so that a slice never raises.
\<close>

definition clamp_index :: "int \<Rightarrow> nat \<Rightarrow> nat" where
  "clamp_index i n = (if i < 0 then nat (max (i + int n) 0) else min (nat i) n)"

definition slice_start :: "int option \<Rightarrow> nat \<Rightarrow> nat" where
  "slice_start a n = (case a of None \<Rightarrow> 0 | Some i \<Rightarrow> clamp_index i n)"

definition slice_stop :: "int option \<Rightarrow> nat \<Rightarrow> nat" where
  "slice_stop b n = (case b of None \<Rightarrow> n | Some i \<Rightarrow> clamp_index i n)"

definition py_slice :: "'a list \<Rightarrow> int option \<Rightarrow> int option \<Rightarrow> 'a list" where
  "py_slice xs a b =
     (let s = slice_start a (length xs); e = slice_stop b (length xs)
      in take (e - s) (drop s xs))"

section \<open>Arrays in row-major order\<close>

text \<open>
  An n-dimensional array is its shape and its elements in row-major (C) order. Row \<open>r\<close>
  of an array whose rows hold \<open>m\<close> elements each is the block of \<open>m\<close> elements at offset
  \<open>r * m\<close>.
\<close>

definition row :: "nat \<Rightarrow> nat \<Rightarrow> 'a list \<Rightarrow> 'a list" where
  "row m r xs = take m (drop (r * m) xs)"

text \<open>
  Basic indexing \<open>arr[key]\<close>: the key is a tuple of integers and unit-step slices, one per
  leading axis; the axes the key does not reach are kept whole. The shape of the result
  and the errors depend on the shape of the array and on the key only.
\<close>

datatype index_item = Int_idx int | Slice_idx "int option" "int option"

fun index_shape :: "index_item list \<Rightarrow> nat list \<Rightarrow> py_error + nat list" where
  "index_shape [] ds = Inr ds"
| "index_shape (k # ks) [] = Inl IndexError"
| "index_shape (Int_idx i # ks) (d # ds) =
     (let j = (if i < 0 then i + int d else i)
      in if 0 \<le> j \<and> j < int d then index_shape ks ds else Inl IndexError)"
| "index_shape (Slice_idx a b # ks) (d # ds) =
     (case index_shape ks ds of
        Inl e \<Rightarrow> Inl e
      | Inr s \<Rightarrow> Inr ((slice_stop b d - slice_start a d) # s))"

fun index_data :: "index_item list \<Rightarrow> nat list \<Rightarrow> 'a list \<Rightarrow> 'a list" where
  "index_data [] ds xs = xs"
| "index_data (k # ks) [] xs = xs"
| "index_data (Int_idx i # ks) (d # ds) xs =
     (let j = (if i < 0 then i + int d else i)
      in index_data ks ds (row (prod_list ds) (nat j) xs))"
| "index_data (Slice_idx a b # ks) (d # ds) xs =
     concat (map (\<lambda>r. index_data ks ds (row (prod_list ds) r xs))
                 [slice_start a d ..< slice_stop b d])"

section \<open>Atom layouts\<close>

text \<open>
  A NumPy array of a layout: its dtype (only whether it is \<open>object\<close> matters to the code),
  its shape and its elements.
\<close>

datatype np_dtype = Object_dtype | Native_dtype

record np_array =
  dtype :: np_dtype
  np_shape :: "nat list"
  np_data :: "pyobj list"

definition np_array_ok :: "np_array \<Rightarrow> bool" where
  "np_array_ok a = (length (np_data a) = prod_list (np_shape a))"

text \<open>The dataclass \<open>AtomLayout\<close>, its fields in the order of their declaration.\<close>

record AtomLayout =
  atom_name :: np_array
  res_id :: np_array
  chain_id :: np_array
  atom_element :: "np_array option"
  res_name :: "np_array option"
  chain_type :: "np_array option"

definition AtomLayout_shape :: "AtomLayout \<Rightarrow> nat list" where
  "AtomLayout_shape l = np_shape (atom_name l)"

text \<open>
  Modelled from the spec: the helper \<open>_assert_all_arrays_have_same_shape\<close> is called by
  \<open>__post_init__\<close> and is not part of the source files at hand. The spec says that every
  field array has identical shape and that constructing a layout with mismatched shapes
  fails; an absent optional field has no shape to compare.
\<close>

definition assert_all_arrays_have_same_shape ::
  "nat list \<Rightarrow> np_array option list \<Rightarrow> py_error + unit" where
  "assert_all_arrays_have_same_shape expected_shape attributes =
     (if list_all (\<lambda>a. case a of None \<Rightarrow> True | Some x \<Rightarrow> np_shape x = expected_shape)
                  attributes
      then Inr () else Inl ValueError)"

text \<open>
  \<open>__post_init__\<close> runs at every construction of a layout: the shapes are compared in the
  order \<open>atom_name, atom_element, res_name, res_id, chain_id, chain_type\<close>, then the dtype
  of \<open>atom_name\<close> is checked.
\<close>

definition AtomLayout_post_init :: "AtomLayout \<Rightarrow> py_error + AtomLayout" where
  "AtomLayout_post_init l =
     (case assert_all_arrays_have_same_shape (np_shape (atom_name l))
             [Some (atom_name l), atom_element l, res_name l,
              Some (res_id l), Some (chain_id l), chain_type l] of
        Inl e \<Rightarrow> Inl e
      | Inr _ \<Rightarrow>
          if dtype (atom_name l) \<noteq> Object_dtype then Inl ValueError else Inr l)"

text \<open>
  The layouts the class admits: \<open>__post_init__\<close> has accepted them, every array holds as
  many elements as its shape says, and the layout has at least one axis (the class
  documents layouts as \<open>[num_atoms]\<close>, \<open>[num_residues, max_atoms_per_residue]\<close> and the
  like; NumPy hands out the element itself, not an array, where an index leaves no axis).
\<close>

definition opt_array_ok :: "np_array option \<Rightarrow> bool" where
  "opt_array_ok a = (case a of None \<Rightarrow> True | Some x \<Rightarrow> np_array_ok x)"

definition AtomLayout_ok :: "AtomLayout \<Rightarrow> bool" where
  "AtomLayout_ok l =
     (AtomLayout_post_init l = Inr l \<and> np_shape (atom_name l) \<noteq> [] \<and>
      np_array_ok (atom_name l) \<and> np_array_ok (res_id l) \<and> np_array_ok (chain_id l) \<and>
      opt_array_ok (atom_element l) \<and> opt_array_ok (res_name l) \<and>
      opt_array_ok (chain_type l))"

subsection \<open>Equality\<close>

text \<open>
  \<open>np.array_equal\<close> is false for two arrays of different shapes and otherwise compares
  all elements. \<open>arr[mask]\<close> with a boolean mask of the shape of \<open>arr\<close> selects the
  elements where the mask is true, in row-major order, and raises \<open>IndexError\<close> where the
  shapes do not fit (all the fields of a layout share one shape, so a mask of lower rank
  does not occur).
\<close>

definition array_equal :: "np_array \<Rightarrow> np_array \<Rightarrow> bool" where
  "array_equal a b = (np_shape a = np_shape b \<and> np_data a = np_data b)"

definition astype_bool :: "np_array \<Rightarrow> bool list" where
  "astype_bool a = map truthy (np_data a)"

definition select :: "bool list \<Rightarrow> 'a list \<Rightarrow> 'a list" where
  "select m xs = map fst (filter snd (zip xs m))"

definition mask_index :: "nat list \<Rightarrow> bool list \<Rightarrow> np_array \<Rightarrow> py_error + pyobj list" where
  "mask_index mask_shape m a =
     (if np_shape a \<noteq> mask_shape then Inl IndexError else Inr (select m (np_data a)))"

definition masked_array_equal ::
  "nat list \<Rightarrow> bool list \<Rightarrow> np_array \<Rightarrow> np_array \<Rightarrow> py_error + bool" where
  "masked_array_equal mask_shape m my_arr other_arr =
     (case mask_index mask_shape m my_arr of
        Inl e \<Rightarrow> Inl e
      | Inr xs \<Rightarrow>
          (case mask_index mask_shape m other_arr of
             Inl e \<Rightarrow> Inl e
           | Inr ys \<Rightarrow> Inr (xs = ys)))"

text \<open>
  The two loops of \<open>__eq__\<close> over the field names: a pair of arrays is compared under the
  mask when both are present (the essential fields always are), and the first pair that
  differs ends the comparison.
\<close>

fun fields_equal ::
  "nat list \<Rightarrow> bool list \<Rightarrow> (np_array option \<times> np_array option) list \<Rightarrow> py_error + bool" where
  "fields_equal mask_shape m [] = Inr True"
| "fields_equal mask_shape m ((Some my_arr, Some other_arr) # rest) =
     (case masked_array_equal mask_shape m my_arr other_arr of
        Inl e \<Rightarrow> Inl e
      | Inr eq \<Rightarrow> if \<not> eq then Inr False else fields_equal mask_shape m rest)"
| "fields_equal mask_shape m (_ # rest) = fields_equal mask_shape m rest"

definition AtomLayout_eq :: "AtomLayout \<Rightarrow> AtomLayout \<Rightarrow> py_error + bool" where
  "AtomLayout_eq self other =
     (if \<not> array_equal (atom_name self) (atom_name other) then Inr False
      else
        let mask = astype_bool (atom_name self);
            mask_shape = np_shape (atom_name self)
        in fields_equal mask_shape mask
             [(Some (res_id self), Some (res_id other)),
              (Some (chain_id self), Some (chain_id other)),
              (atom_element self, atom_element other),
              (res_name self, res_name other),
              (chain_type self, chain_type other)])"

text \<open>
  What it is for two layouts to agree on every valid slot: wherever the mask is true the
  two arrays hold the same element. For an optional field the arrays are compared when
  both layouts have one.
\<close>

definition agree_where :: "bool list \<Rightarrow> 'a list \<Rightarrow> 'a list \<Rightarrow> bool" where
  "agree_where m xs ys = list_all (\<lambda>(v, x, y). v \<longrightarrow> x = y) (zip m (zip xs ys))"

definition opt_agree_where :: "bool list \<Rightarrow> np_array option \<Rightarrow> np_array option \<Rightarrow> bool" where
  "opt_agree_where m a b =
     (case (a, b) of
        (Some x, Some y) \<Rightarrow> agree_where m (np_data x) (np_data y)
      | _ \<Rightarrow> True)"

definition agree_on_valid_slots :: "AtomLayout \<Rightarrow> AtomLayout \<Rightarrow> bool" where
  "agree_on_valid_slots a b =
     (let m = astype_bool (atom_name a)
      in agree_where m (np_data (atom_name a)) (np_data (atom_name b)) \<and>
         agree_where m (np_data (res_id a)) (np_data (res_id b)) \<and>
         agree_where m (np_data (chain_id a)) (np_data (chain_id b)) \<and>
         opt_agree_where m (atom_element a) (atom_element b) \<and>
         opt_agree_where m (res_name a) (res_name b) \<and>
         opt_agree_where m (chain_type a) (chain_type b))"

subsection \<open>Indexing\<close>

text \<open>
  \<open>arr[key]\<close> on a NumPy array keeps the dtype. \<open>__getitem__\<close> indexes every field with
  the same key and constructs a new layout from the results. Where the key leaves no axis,
  NumPy returns the element instead of an array, and \<open>__post_init__\<close> fails on
  \<open>self.atom_name.shape\<close> with \<open>AttributeError\<close>.
\<close>

definition np_getitem :: "index_item list \<Rightarrow> np_array \<Rightarrow> py_error + np_array" where
  "np_getitem key a =
     (case index_shape key (np_shape a) of
        Inl e \<Rightarrow> Inl e
      | Inr s \<Rightarrow> Inr (a\<lparr>np_shape := s, np_data := index_data key (np_shape a) (np_data a)\<rparr>))"

definition opt_getitem :: "index_item list \<Rightarrow> np_array option \<Rightarrow> py_error + np_array option" where
  "opt_getitem key a =
     (case a of
        None \<Rightarrow> Inr None
      | Some x \<Rightarrow> (case np_getitem key x of Inl e \<Rightarrow> Inl e | Inr y \<Rightarrow> Inr (Some y)))"

definition AtomLayout_getitem :: "index_item list \<Rightarrow> AtomLayout \<Rightarrow> py_error + AtomLayout" where
  "AtomLayout_getitem key self =
     (case np_getitem key (atom_name self) of Inl e \<Rightarrow> Inl e | Inr an \<Rightarrow>
      case np_getitem key (res_id self) of Inl e \<Rightarrow> Inl e | Inr ri \<Rightarrow>
      case np_getitem key (chain_id self) of Inl e \<Rightarrow> Inl e | Inr ci \<Rightarrow>
      case opt_getitem key (atom_element self) of Inl e \<Rightarrow> Inl e | Inr ae \<Rightarrow>
      case opt_getitem key (res_name self) of Inl e \<Rightarrow> Inl e | Inr rn \<Rightarrow>
      case opt_getitem key (chain_type self) of Inl e \<Rightarrow> Inl e | Inr ct \<Rightarrow>
        if np_shape an = [] then Inl AttributeError
        else AtomLayout_post_init
               \<lparr>atom_name = an, res_id = ri, chain_id = ci,
                atom_element = ae, res_name = rn, chain_type = ct\<rparr>)"

subsection \<open>Padding\<close>

text \<open>
  \<open>np.pad\<close> in its default mode \<open>constant\<close>: axis by axis, \<open>before\<close> blocks of the constant,
  the padded rows of the array, \<open>after\<close> blocks of the constant. The dtype is kept.
\<close>

fun pad_shape :: "(nat \<times> nat) list \<Rightarrow> nat list \<Rightarrow> nat list" where
  "pad_shape ((before, after) # ps) (d # ds) = (before + d + after) # pad_shape ps ds"
| "pad_shape ps ds = ds"

fun pad_data :: "(nat \<times> nat) list \<Rightarrow> nat list \<Rightarrow> 'a \<Rightarrow> 'a list \<Rightarrow> 'a list" where
  "pad_data ((before, after) # ps) (d # ds) c xs =
     (let m = prod_list (pad_shape ps ds)
      in replicate (before * m) c
         @ concat (map (\<lambda>r. pad_data ps ds c (row (prod_list ds) r xs)) [0 ..< d])
         @ replicate (after * m) c)"
| "pad_data ps ds c xs = xs"

definition np_pad :: "np_array \<Rightarrow> (nat \<times> nat) list \<Rightarrow> pyobj \<Rightarrow> np_array" where
  "np_pad a pad_width constant_values =
     a\<lparr>np_shape := pad_shape pad_width (np_shape a),
       np_data := pad_data pad_width (np_shape a) constant_values (np_data a)\<rparr>"

text \<open>
  \<open>copy_and_pad_to\<close>: the requested shape is a tuple of Python integers. The names and
  the other string fields are padded with the empty string, \<open>res_id\<close> with 0.
\<close>

definition copy_and_pad_to :: "AtomLayout \<Rightarrow> int list \<Rightarrow> py_error + AtomLayout" where
  "copy_and_pad_to self shape =
     (let old_shape = np_shape (atom_name self) in
      if length shape \<noteq> length old_shape then Inl ValueError
      else if list_ex (\<lambda>(old, new). new < int old) (zip old_shape shape) then Inl ValueError
      else
        let pad_width = map (\<lambda>(old, new). (0, nat (new - int old))) (zip old_shape shape);
            pad_val = PyStr ''''
        in AtomLayout_post_init
             \<lparr>atom_name = np_pad (atom_name self) pad_width pad_val,
              res_id = np_pad (res_id self) pad_width (PyInt 0),
              chain_id = np_pad (chain_id self) pad_width pad_val,
              atom_element = map_option (\<lambda>a. np_pad a pad_width pad_val) (atom_element self),
              res_name = map_option (\<lambda>a. np_pad a pad_width pad_val) (res_name self),
              chain_type = map_option (\<lambda>a. np_pad a pad_width pad_val) (chain_type self)\<rparr>)"

text \<open>The \<open>pad_width\<close> that \<open>copy_and_pad_to\<close> computes, named for the statements below.\<close>

definition pad_width_of :: "nat list \<Rightarrow> int list \<Rightarrow> (nat \<times> nat) list" where
  "pad_width_of old_shape shape = map (\<lambda>(old, new). (0, nat (new - int old))) (zip old_shape shape)"

text \<open>The key that slices a padded layout back to the extents \<open>ds\<close>: \<open>[0:d]\<close> on every axis.\<close>

definition original_extents :: "nat list \<Rightarrow> index_item list" where
  "original_extents ds = map (\<lambda>d. Slice_idx (Some 0) (Some (int d))) ds"

subsection \<open>Stacking\<close>

text \<open>
  \<open>np.stack(arrays, axis=0)\<close> needs arrays of one shape and puts them one after the other
  under a new leading axis; the result has dtype \<open>object\<close> as soon as one of them has.
  \<open>dataclasses.astuple\<close> lists the fields in the order of their declaration, and
  \<open>cls(*arr)\<close> hands the rows of the array to the constructor in that same order. A row
  of a one-dimensional array is an element, not an array.
\<close>

definition np_stack :: "np_array list \<Rightarrow> py_error + np_array" where
  "np_stack arrays =
     (case arrays of
        [] \<Rightarrow> Inl ValueError
      | a # rest \<Rightarrow>
          if list_all (\<lambda>b. np_shape b = np_shape a) rest
          then Inr \<lparr>dtype = (if list_ex (\<lambda>b. dtype b = Object_dtype) arrays
                              then Object_dtype else Native_dtype),
                    np_shape = length arrays # np_shape a,
                    np_data = concat (map np_data arrays)\<rparr>
          else Inl ValueError)"

definition to_array :: "AtomLayout \<Rightarrow> py_error + np_array" where
  "to_array self =
     (if atom_element self = None \<or> res_name self = None \<or> chain_type self = None
      then Inl ValueError
      else np_stack [atom_name self, res_id self, chain_id self,
                     the (atom_element self), the (res_name self), the (chain_type self)])"

definition np_row :: "np_array \<Rightarrow> nat \<Rightarrow> np_array" where
  "np_row arr i =
     arr\<lparr>np_shape := tl (np_shape arr),
         np_data := row (prod_list (tl (np_shape arr))) i (np_data arr)\<rparr>"

definition from_array :: "np_array \<Rightarrow> py_error + AtomLayout" where
  "from_array arr =
     (case np_shape arr of
        [] \<Rightarrow> Inl IndexError
      | d # ds \<Rightarrow>
          if d \<noteq> 6 then Inl ValueError
          else if ds = [] then Inl AttributeError
          else AtomLayout_post_init
                 \<lparr>atom_name = np_row arr 0, res_id = np_row arr 1, chain_id = np_row arr 2,
                  atom_element = Some (np_row arr 3), res_name = Some (np_row arr 4),
                  chain_type = Some (np_row arr 5)\<rparr>)"

section \<open>Gather maps and layout conversion\<close>

text \<open>
  The elements of a \<open>torch.Tensor\<close>: a finite number, or one of the special values of
  IEEE arithmetic that a floating-point tensor can hold. Integer and boolean tensors hold
  finite numbers only. \<open>x * m\<close> with a boolean \<open>m\<close> multiplies by 1 or 0: a finite number
  stays or becomes 0, an infinity stays or becomes NaN, and NaN stays NaN.
\<close>

datatype 'a ieee = Finite 'a | PosInf | NegInf | NaN

fun mul_bool :: "'a::semiring_1 ieee \<Rightarrow> bool \<Rightarrow> 'a ieee" where
  "mul_bool (Finite x) m = Finite (x * of_bool m)"
| "mul_bool PosInf m = (if m then PosInf else NaN)"
| "mul_bool NegInf m = (if m then NegInf else NaN)"
| "mul_bool NaN m = NaN"

fun is_finite :: "'a ieee \<Rightarrow> bool" where
  "is_finite (Finite x) = True"
| "is_finite _ = False"

text \<open>A \<open>torch.Tensor\<close>: its shape and its elements in row-major order.\<close>

record 'a tensor =
  tensor_shape :: "nat list"
  tensor_data :: "'a list"

definition tensor_ok :: "'a tensor \<Rightarrow> bool" where
  "tensor_ok t = (length (tensor_data t) = prod_list (tensor_shape t))"

definition tensor_getitem :: "index_item list \<Rightarrow> 'a tensor \<Rightarrow> py_error + 'a tensor" where
  "tensor_getitem key t =
     (case index_shape key (tensor_shape t) of
        Inl e \<Rightarrow> Inl e
      | Inr s \<Rightarrow> Inr \<lparr>tensor_shape = s,
                     tensor_data = index_data key (tensor_shape t) (tensor_data t)\<rparr>)"

text \<open>
  The dataclass \<open>GatherInfo\<close>. \<open>input_shape\<close> is a one-dimensional integer tensor, kept as
  the list of its elements.
\<close>

record GatherInfo =
  gather_idxs :: "int tensor"
  gather_mask :: "bool tensor"
  input_shape :: "int list"

definition GatherInfo_post_init :: "GatherInfo \<Rightarrow> py_error + GatherInfo" where
  "GatherInfo_post_init g =
     (if tensor_shape (gather_mask g) \<noteq> tensor_shape (gather_idxs g) then Inl ValueError
      else Inr g)"

definition GatherInfo_shape :: "GatherInfo \<Rightarrow> nat list" where
  "GatherInfo_shape g = tensor_shape (gather_idxs g)"

definition GatherInfo_getitem :: "index_item list \<Rightarrow> GatherInfo \<Rightarrow> py_error + GatherInfo" where
  "GatherInfo_getitem key self =
     (case tensor_getitem key (gather_idxs self) of Inl e \<Rightarrow> Inl e | Inr idxs \<Rightarrow>
      case tensor_getitem key (gather_mask self) of Inl e \<Rightarrow> Inl e | Inr msk \<Rightarrow>
        GatherInfo_post_init
          \<lparr>gather_idxs = idxs, gather_mask = msk, input_shape = input_shape self\<rparr>)"

text \<open>
  The gather maps that exist: \<open>__post_init__\<close> has accepted them, and both tensors hold as
  many elements as their shape says.
\<close>

definition GatherInfo_ok :: "GatherInfo \<Rightarrow> bool" where
  "GatherInfo_ok g =
     (GatherInfo_post_init g = Inr g \<and> tensor_ok (gather_idxs g) \<and> tensor_ok (gather_mask g))"

subsection \<open>The steps of \<open>convert\<close>\<close>

text \<open>
  \<open>arr.reshape(shape)\<close> needs as many elements as the array has and keeps their order.
\<close>

definition reshape :: "'a tensor \<Rightarrow> nat list \<Rightarrow> py_error + 'a tensor" where
  "reshape t s =
     (if prod_list s \<noteq> prod_list (tensor_shape t) then Inl RuntimeError
      else Inr \<lparr>tensor_shape = s, tensor_data = tensor_data t\<rparr>)"

text \<open>
  \<open>arr[:, ..., :, idxs, ...]\<close> with \<open>k\<close> full slices before the index tensor: along axis \<open>k\<close>,
  of size \<open>n\<close>, the blocks of the trailing axes are picked in the order of \<open>idxs\<close>, whose
  shape takes the place of that axis. An index is valid from \<open>-n\<close> to \<open>n - 1\<close>, a negative
  one counting from the end; any other raises \<open>IndexError\<close>.
\<close>

definition wrap_index :: "nat \<Rightarrow> int \<Rightarrow> nat" where
  "wrap_index n i = nat (if i < 0 then i + int n else i)"

definition gather_rows :: "nat \<Rightarrow> nat \<Rightarrow> nat \<Rightarrow> int list \<Rightarrow> 'a list \<Rightarrow> 'a list" where
  "gather_rows num_batch n num_features idxs xs =
     concat (map (\<lambda>b. concat (map (\<lambda>i. row num_features (b * n + wrap_index n i) xs) idxs))
                 [0 ..< num_batch])"

definition index_axis :: "nat \<Rightarrow> int tensor \<Rightarrow> 'a tensor \<Rightarrow> py_error + 'a tensor" where
  "index_axis k idxs t =
     (if length (tensor_shape t) \<le> k then Inl IndexError
      else
        let batch = take k (tensor_shape t);
            n = tensor_shape t ! k;
            features = drop (Suc k) (tensor_shape t)
        in if list_ex (\<lambda>i. i < - int n \<or> int n \<le> i) (tensor_data idxs) then Inl IndexError
           else Inr \<lparr>tensor_shape = batch @ tensor_shape idxs @ features,
                     tensor_data = gather_rows (prod_list batch) n (prod_list features)
                                     (tensor_data idxs) (tensor_data t)\<rparr>)"

text \<open>
  \<open>out_arr *= mask.reshape((1,) * len(batch_shape) + mask.shape + (1,) * len(features_shape))\<close>:
  the mask, which has the shape of \<open>gather_idxs\<close>, is repeated over the batch axes before it
  and over the feature axes after it, and every element is multiplied by its mask value.
\<close>

definition broadcast_mask :: "nat list \<Rightarrow> bool list \<Rightarrow> nat list \<Rightarrow> bool list" where
  "broadcast_mask batch_shape msk features_shape =
     concat (replicate (prod_list batch_shape)
               (concat (map (replicate (prod_list features_shape)) msk)))"

definition imul_mask ::
  "'a::semiring_1 ieee tensor \<Rightarrow> nat list \<Rightarrow> bool tensor \<Rightarrow> nat list \<Rightarrow> 'a ieee tensor" where
  "imul_mask out_arr batch_shape msk features_shape =
     out_arr\<lparr>tensor_data :=
       map (\<lambda>(x, m). mul_bool x m)
           (zip (tensor_data out_arr)
                (broadcast_mask batch_shape (tensor_data msk) features_shape))\<rparr>"

subsection \<open>\<open>convert\<close>\<close>

text \<open>
  The function follows the source line by line: the negative axes are translated, the axes
  must be the run \<open>range(begin, end)\<close>, the layout shape must fit \<open>input_shape\<close>, the layout
  axes are flattened, the gather runs behind 0 to 4 batch axes, and the mask is applied.
  \<open>layout_axes[0]\<close> on an empty tuple and \<open>layout_shape[0]\<close> on an empty shape raise
  \<open>IndexError\<close>.
\<close>

definition normalize_axes :: "nat \<Rightarrow> int list \<Rightarrow> int list" where
  "normalize_axes ndim layout_axes = map (\<lambda>i. if i \<ge> 0 then i else i + int ndim) layout_axes"

definition convert ::
  "GatherInfo \<Rightarrow> 'a::semiring_1 ieee tensor \<Rightarrow> int list \<Rightarrow> py_error + 'a ieee tensor" where
  "convert gather_info arr layout_axes0 =
     (let layout_axes = normalize_axes (length (tensor_shape arr)) layout_axes0 in
      if layout_axes = [] then Inl IndexError
      else
        let layout_axes_begin = hd layout_axes;
            layout_axes_end = last layout_axes + 1
        in if layout_axes \<noteq> [layout_axes_begin .. layout_axes_end - 1] then Inl ValueError
        else
          let layout_shape =
                py_slice (tensor_shape arr) (Some layout_axes_begin) (Some layout_axes_end);
              gather_info_input_shape = input_shape gather_info
          in if length layout_shape \<noteq> length gather_info_input_shape then Inl ValueError
          else if layout_shape = [] then Inl IndexError
          else if int (hd layout_shape) < hd gather_info_input_shape
                  \<or> map int (tl layout_shape) \<noteq> tl gather_info_input_shape
               then Inl ValueError
          else
            let batch_shape = py_slice (tensor_shape arr) None (Some layout_axes_begin);
                features_shape = py_slice (tensor_shape arr) (Some layout_axes_end) None;
                arr_flattened_shape = batch_shape @ [prod_list layout_shape] @ features_shape
            in case reshape arr arr_flattened_shape of
                 Inl e \<Rightarrow> Inl e
               | Inr arr_flattened \<Rightarrow>
                   (case (if layout_axes_begin = 0
                          then index_axis 0 (gather_idxs gather_info) arr_flattened
                          else if layout_axes_begin = 1
                          then index_axis 1 (gather_idxs gather_info) arr_flattened
                          else if layout_axes_begin = 2
                          then index_axis 2 (gather_idxs gather_info) arr_flattened
                          else if layout_axes_begin = 3
                          then index_axis 3 (gather_idxs gather_info) arr_flattened
                          else if layout_axes_begin = 4
                          then index_axis 4 (gather_idxs gather_info) arr_flattened
                          else Inl ValueError) of
                      Inl e \<Rightarrow> Inl e
                    | Inr out_arr \<Rightarrow>
                        Inr (imul_mask out_arr batch_shape (gather_mask gather_info)
                               features_shape)))"

subsection \<open>Names for the statements about \<open>convert\<close>\<close>

text \<open>
  The three parts into which \<open>convert\<close> cuts the shape of the array, as functions of the
  array and of the \<open>layout_axes\<close> argument.
\<close>

definition layout_axes_begin_of :: "'a tensor \<Rightarrow> int list \<Rightarrow> int" where
  "layout_axes_begin_of arr layout_axes0 =
     hd (normalize_axes (length (tensor_shape arr)) layout_axes0)"

definition layout_axes_end_of :: "'a tensor \<Rightarrow> int list \<Rightarrow> int" where
  "layout_axes_end_of arr layout_axes0 =
     last (normalize_axes (length (tensor_shape arr)) layout_axes0) + 1"

definition layout_shape_of :: "'a tensor \<Rightarrow> int list \<Rightarrow> nat list" where
  "layout_shape_of arr layout_axes0 =
     py_slice (tensor_shape arr) (Some (layout_axes_begin_of arr layout_axes0))
       (Some (layout_axes_end_of arr layout_axes0))"

definition batch_shape_of :: "'a tensor \<Rightarrow> int list \<Rightarrow> nat list" where
  "batch_shape_of arr layout_axes0 =
     py_slice (tensor_shape arr) None (Some (layout_axes_begin_of arr layout_axes0))"

definition features_shape_of :: "'a tensor \<Rightarrow> int list \<Rightarrow> nat list" where
  "features_shape_of arr layout_axes0 =
     py_slice (tensor_shape arr) (Some (layout_axes_end_of arr layout_axes0)) None"

text \<open>
  The inputs on which \<open>convert\<close> raises: no layout axis given; layout axes that are not the
  run \<open>range(begin, end)\<close>; a number of selected axes \<open>arr.shape[begin:end]\<close> other than the
  length of \<open>input_shape\<close>, or no selected axis at all; a first layout axis smaller than
  \<open>input_shape[0]\<close>; a later layout axis other than \<open>input_shape\<close> says; a \<open>begin\<close> outside
  0 to 4; a gather index outside \<open>-n\<close> to \<open>n - 1\<close>, where \<open>n\<close> is the size of the flattened
  layout axes.
\<close>

definition convert_raises :: "GatherInfo \<Rightarrow> 'a tensor \<Rightarrow> int list \<Rightarrow> bool" where
  "convert_raises gather_info arr layout_axes0 =
     (let layout_axes = normalize_axes (length (tensor_shape arr)) layout_axes0;
          layout_shape = layout_shape_of arr layout_axes0;
          n = prod_list layout_shape
      in layout_axes = []
         \<or> layout_axes \<noteq> [layout_axes_begin_of arr layout_axes0
                             .. layout_axes_end_of arr layout_axes0 - 1]
         \<or> length layout_shape \<noteq> length (input_shape gather_info)
         \<or> layout_shape = []
         \<or> int (hd layout_shape) < hd (input_shape gather_info)
         \<or> map int (tl layout_shape) \<noteq> tl (input_shape gather_info)
         \<or> layout_axes_begin_of arr layout_axes0 < 0
         \<or> 4 < layout_axes_begin_of arr layout_axes0
         \<or> list_ex (\<lambda>i. i < - int n \<or> int n \<le> i) (tensor_data (gather_idxs gather_info)))"

text \<open>
  The error condition as claim C6 words it: the layout axes are not a contiguous run, or
  their number differs from the rank of \<open>input_shape\<close>, or the first layout axis of the array
  is smaller than \<open>input_shape[0]\<close>, or a later one differs, or more than 4 batch axes come
  before the layout axes.
\<close>

definition convert_raises_as_claimed :: "GatherInfo \<Rightarrow> 'a tensor \<Rightarrow> int list \<Rightarrow> bool" where
  "convert_raises_as_claimed gather_info arr layout_axes0 =
     (let layout_axes = normalize_axes (length (tensor_shape arr)) layout_axes0;
          layout_shape = layout_shape_of arr layout_axes0
      in layout_axes \<noteq> [layout_axes_begin_of arr layout_axes0
                           .. layout_axes_end_of arr layout_axes0 - 1]
         \<or> length layout_axes \<noteq> length (input_shape gather_info)
         \<or> int (hd layout_shape) < hd (input_shape gather_info)
         \<or> map int (tl layout_shape) \<noteq> tl (input_shape gather_info)
         \<or> 4 < layout_axes_begin_of arr layout_axes0)"

text \<open>
  A gather index outside the flattened layout axes, and layout axes that are axes of the
  array: a non-empty tuple whose normalized entries lie between 0 and the rank of the
  array.
\<close>

definition gather_index_out_of_range :: "GatherInfo \<Rightarrow> 'a tensor \<Rightarrow> int list \<Rightarrow> bool" where
  "gather_index_out_of_range gather_info arr layout_axes0 =
     (let n = prod_list (layout_shape_of arr layout_axes0)
      in list_ex (\<lambda>i. i < - int n \<or> int n \<le> i) (tensor_data (gather_idxs gather_info)))"

definition layout_axes_in_range :: "'a tensor \<Rightarrow> int list \<Rightarrow> bool" where
  "layout_axes_in_range arr layout_axes0 =
     (layout_axes0 \<noteq> [] \<and>
      list_all (\<lambda>ax. 0 \<le> ax \<and> ax < int (length (tensor_shape arr)))
        (normalize_axes (length (tensor_shape arr)) layout_axes0))"

text \<open>
  The identity map over a source layout of shape \<open>input_shape\<close>: the indices enumerate the
  flattened source positions in order, the mask is true everywhere, and the map has the
  shape of its input.
\<close>

definition identity_gather_info :: "int list \<Rightarrow> GatherInfo" where
  "identity_gather_info shp =
     \<lparr>gather_idxs = \<lparr>tensor_shape = map nat shp,
                      tensor_data = map int [0 ..< prod_list (map nat shp)]\<rparr>,
      gather_mask = \<lparr>tensor_shape = map nat shp,
                      tensor_data = replicate (prod_list (map nat shp)) True\<rparr>,
      input_shape = shp\<rparr>"

section \<open>Attention\<close>

subsection \<open>Scaled dot-product attention\<close>

text \<open>
  \<open>dot_product_attention\<close> on one head: \<open>q\<close> holds a row per query, \<open>k\<close> and \<open>v\<close> a row per
  key, \<open>mask\<close> and \<open>bias\<close> a row per query and a column per key. The numbers are reals, the
  exact values that the floating-point tensors approximate. \<open>q.size(-1) ** -0.5\<close> raises
  \<open>ZeroDivisionError\<close> for a head dimension of zero.
\<close>

type_synonym matrix = "real list list"

definition dot :: "real list \<Rightarrow> real list \<Rightarrow> real" where
  "dot xs ys = sum_list (map (\<lambda>(x, y). x * y) (zip xs ys))"

definition matmul_transposed :: "matrix \<Rightarrow> matrix \<Rightarrow> matrix" where
  "matmul_transposed a b = map (\<lambda>r. map (\<lambda>c. dot r c) b) a"

definition matmul :: "matrix \<Rightarrow> matrix \<Rightarrow> matrix" where
  "matmul a b = matmul_transposed a (transpose b)"

definition matrix_add :: "matrix \<Rightarrow> matrix \<Rightarrow> matrix" where
  "matrix_add a b = map (\<lambda>(r, s). map (\<lambda>(x, y). x + y) (zip r s)) (zip a b)"

definition masked_fill :: "matrix \<Rightarrow> bool list list \<Rightarrow> real \<Rightarrow> matrix" where
  "masked_fill a fill_where v =
     map (\<lambda>(r, ms). map (\<lambda>(x, m). if m then v else x) (zip r ms)) (zip a fill_where)"

definition softmax :: "real list \<Rightarrow> real list" where
  "softmax xs = map (\<lambda>x. exp x / sum_list (map exp xs)) xs"

definition attention_logits ::
  "matrix \<Rightarrow> matrix \<Rightarrow> matrix option \<Rightarrow> py_error + matrix" where
  "attention_logits q k bias =
     (let d = (case q of [] \<Rightarrow> 0 | r # _ \<Rightarrow> length r) in
      if d = 0 then Inl ZeroDivisionError
      else
        let scaling = real d powr (- 1 / 2);
            q' = map (map (\<lambda>x. x * scaling)) q;
            logits = matmul_transposed q' k
        in Inr (case bias of None \<Rightarrow> logits | Some b \<Rightarrow> matrix_add logits b))"

definition attention_weights ::
  "matrix \<Rightarrow> matrix \<Rightarrow> bool list list option \<Rightarrow> matrix option \<Rightarrow> py_error + matrix" where
  "attention_weights q k mask_opt bias =
     (case attention_logits q k bias of
        Inl e \<Rightarrow> Inl e
      | Inr logits \<Rightarrow>
          Inr (map softmax
                 (case mask_opt of
                    None \<Rightarrow> logits
                  | Some m \<Rightarrow> masked_fill logits (map (map Not) m) (- 1000000000))))"

definition dot_product_attention ::
  "matrix \<Rightarrow> matrix \<Rightarrow> matrix \<Rightarrow> bool list list option \<Rightarrow> matrix option
     \<Rightarrow> py_error + matrix" where
  "dot_product_attention q k v mask_opt bias =
     (case attention_weights q k mask_opt bias of
        Inl e \<Rightarrow> Inl e
      | Inr weights \<Rightarrow> Inr (matmul weights v))"

subsection \<open>Attention with pair bias\<close>

text \<open>
  The tensors of the module are floating-point tensors; their type and the numeric
  operations on them are parameters. The layers are the ones that \<open>__init__\<close> creates;
  \<open>layer_norm\<close> is an attribute only of a module constructed with \<open>use_single_cond\<close> false.
\<close>

record 't attention_ops =
  mask_bias :: "'t \<Rightarrow> 't \<Rightarrow> 't"
  split_heads :: "nat \<Rightarrow> 't \<Rightarrow> 't"
  scaled_qk_logits :: "nat \<Rightarrow> 't \<Rightarrow> 't \<Rightarrow> 't"
  tensor_add :: "'t \<Rightarrow> 't \<Rightarrow> 't"
  softmax_keys :: "'t \<Rightarrow> 't"
  weighted_values :: "'t \<Rightarrow> 't \<Rightarrow> 't"
  merge_heads :: "'t \<Rightarrow> 't"
  sigmoid :: "'t \<Rightarrow> 't"
  tensor_mul :: "'t \<Rightarrow> 't \<Rightarrow> 't"

record 't attention_layers =
  new_layer_norm :: "'t \<Rightarrow> 't"
  new_q_projection :: "'t \<Rightarrow> 't"
  new_k_projection :: "'t \<Rightarrow> 't"
  new_v_projection :: "'t \<Rightarrow> 't"
  new_gating_query :: "'t \<Rightarrow> 't"
  new_transition2 :: "'t \<Rightarrow> 't"

record 't AttentionPairBias =
  c_single :: nat
  num_head :: nat
  qkv_dim :: nat
  use_single_cond :: bool
  layer_norm :: "('t \<Rightarrow> 't) option"
  q_projection :: "'t \<Rightarrow> 't"
  k_projection :: "'t \<Rightarrow> 't"
  v_projection :: "'t \<Rightarrow> 't"
  gating_query :: "'t \<Rightarrow> 't"
  transition2 :: "'t \<Rightarrow> 't"

definition AttentionPairBias_init ::
  "'t attention_layers \<Rightarrow> nat \<Rightarrow> nat \<Rightarrow> bool \<Rightarrow> py_error + 't AttentionPairBias" where
  "AttentionPairBias_init layers c n cond =
     (if n = 0 then Inl ZeroDivisionError
      else Inr \<lparr>c_single = c, num_head = n, qkv_dim = c div n, use_single_cond = cond,
                layer_norm = (if cond = False then Some (new_layer_norm layers) else None),
                q_projection = new_q_projection layers,
                k_projection = new_k_projection layers,
                v_projection = new_v_projection layers,
                gating_query = new_gating_query layers,
                transition2 = new_transition2 layers\<rparr>)"

text \<open>
  \<open>forward\<close>: the mask bias is computed from the input as given; then \<open>self.layer_norm(x)\<close>
  is evaluated, on every module, and a module without that attribute raises
  \<open>AttributeError\<close>; the rest works on the normalized input.
\<close>

definition attend ::
  "'t attention_ops \<Rightarrow> 't AttentionPairBias \<Rightarrow> 't \<Rightarrow> 't \<Rightarrow> 't option \<Rightarrow> 't" where
  "attend ops self x bias pair_logits =
     (let q = split_heads ops (num_head self) (q_projection self x);
          k = split_heads ops (num_head self) (k_projection self x);
          v = split_heads ops (num_head self) (v_projection self x);
          logits = tensor_add ops (scaled_qk_logits ops (qkv_dim self) q k) bias;
          logits = (case pair_logits of None \<Rightarrow> logits | Some p \<Rightarrow> tensor_add ops logits p);
          weights = softmax_keys ops logits;
          weighted_avg = merge_heads ops (weighted_values ops weights v);
          gate_logits = gating_query self x;
          weighted_avg = tensor_mul ops weighted_avg (sigmoid ops gate_logits)
      in transition2 self weighted_avg)"

definition AttentionPairBias_forward ::
  "'t attention_ops \<Rightarrow> 't AttentionPairBias \<Rightarrow> 't \<Rightarrow> 't \<Rightarrow> 't option \<Rightarrow> py_error + 't" where
  "AttentionPairBias_forward ops self x msk pair_logits =
     (let bias = mask_bias ops msk x in
      case layer_norm self of
        None \<Rightarrow> Inl AttributeError
      | Some the_norm \<Rightarrow> Inr (attend ops self (the_norm x) bias pair_logits))"

section \<open>The atom cross-attention encoder\<close>

text \<open>
  Modelled from the spec: the class \<open>feat_batch.Batch\<close> is not part of the source files at
  hand. The spec lists what \<open>forward\<close> reads from it: the reference structure (positions,
  mask, element, charge, atom-name characters, reference-space id), the atom mask of the
  predicted structure, and the three gather maps of \<open>atom_cross_att\<close>.
\<close>

record 'a Batch =
  ref_positions :: "'a tensor"
  ref_mask :: "'a tensor"
  ref_element :: "'a tensor"
  ref_charge :: "'a tensor"
  ref_atom_name_chars :: "'a tensor"
  ref_space_uid :: "'a tensor"
  atom_mask :: "'a tensor"
  token_atoms_to_queries :: GatherInfo
  queries_to_keys :: GatherInfo
  queries_to_token_atoms :: GatherInfo

record 'a AtomCrossAttEncoderOutput =
  token_act :: "'a tensor"
  skip_connection :: "'a tensor"
  queries_mask :: "'a tensor"
  queries_single_cond :: "'a tensor"
  keys_mask :: "'a tensor"
  keys_single_cond :: "'a tensor"
  pair_cond :: "'a tensor"

text \<open>
  The floating-point operations of \<open>forward\<close> are parameters: the element-wise and
  broadcasting operations of the tensor library, and \<open>utils.mask_mean\<close>.
\<close>

record 'a encoder_ops =
  relu :: "'a tensor \<Rightarrow> 'a tensor"
  outer_add :: "'a tensor \<Rightarrow> 'a tensor \<Rightarrow> 'a tensor"
  outer_eq :: "'a tensor \<Rightarrow> 'a tensor \<Rightarrow> 'a tensor"
  outer_sub :: "'a tensor \<Rightarrow> 'a tensor \<Rightarrow> 'a tensor"
  mul_last :: "'a tensor \<Rightarrow> 'a tensor \<Rightarrow> 'a tensor"
  inv_sq_dists :: "'a tensor \<Rightarrow> 'a tensor"
  unsqueeze_last :: "'a tensor \<Rightarrow> 'a tensor"
  iadd :: "'a tensor \<Rightarrow> 'a tensor \<Rightarrow> 'a tensor"
  mask_mean :: "'a tensor \<Rightarrow> 'a tensor \<Rightarrow> 'a tensor"

text \<open>
  The module: the three flags that \<open>__init__\<close> stores, the layers that \<open>forward\<close> applies,
  the method \<open>_per_atom_conditioning\<close> (sums of linear embeddings of the reference features)
  and the external \<open>DiffusionCrossAttTransformer\<close>.
\<close>

record 'a AtomCrossAttEncoder =
  with_token_atoms_act :: bool
  with_trunk_single_cond :: bool
  with_trunk_pair_cond :: bool
  per_atom_conditioning :: "'a Batch \<Rightarrow> 'a tensor \<times> 'a tensor"
  single_to_pair_cond_row_1 :: "'a tensor \<Rightarrow> 'a tensor"
  single_to_pair_cond_col_1 :: "'a tensor \<Rightarrow> 'a tensor"
  embed_pair_offsets_1 :: "'a tensor \<Rightarrow> 'a tensor"
  embed_pair_distances_1 :: "'a tensor \<Rightarrow> 'a tensor"
  embed_pair_offsets_valid :: "'a tensor \<Rightarrow> 'a tensor"
  pair_mlp_1 :: "'a tensor \<Rightarrow> 'a tensor"
  pair_mlp_2 :: "'a tensor \<Rightarrow> 'a tensor"
  pair_mlp_3 :: "'a tensor \<Rightarrow> 'a tensor"
  atom_transformer_encoder ::
    "'a tensor \<Rightarrow> 'a tensor \<Rightarrow> GatherInfo \<Rightarrow> 'a tensor \<Rightarrow> 'a tensor \<Rightarrow> 'a tensor \<Rightarrow> 'a tensor
       \<Rightarrow> 'a tensor"
  project_atom_features_for_aggr :: "'a tensor \<Rightarrow> 'a tensor"

text \<open>A statement that may raise, followed by the rest of the function.\<close>

definition then_do :: "py_error + 'b \<Rightarrow> ('b \<Rightarrow> py_error + 'c) \<Rightarrow> py_error + 'c" where
  "then_do r rest = (case r of Inl e \<Rightarrow> Inl e | Inr v \<Rightarrow> rest v)"

text \<open>
  \<open>forward\<close>, statement by statement: the three assertions, the conversions into the query
  and key layouts, the two \<open>NotImplementedError\<close> branches (for \<open>token_atoms_act\<close> and for
  \<open>trunk_pair_cond\<close>), the pair conditioning, the transformer, the conversion back and the
  masked mean. \<open>trunk_single_cond\<close> occurs in its assertion only.
\<close>

definition forward ::
  "'a::semiring_1 ieee AtomCrossAttEncoder \<Rightarrow> 'a ieee encoder_ops \<Rightarrow> 'a ieee Batch \<Rightarrow>
   'a ieee tensor option \<Rightarrow> 'a ieee tensor option \<Rightarrow> 'a ieee tensor option \<Rightarrow>
   py_error + 'a ieee AtomCrossAttEncoderOutput" where
  "forward self ops batch token_atoms_act trunk_single_cond trunk_pair_cond =
    (if (token_atoms_act \<noteq> None) \<noteq> with_token_atoms_act self then Inl AssertionError
     else if (trunk_single_cond \<noteq> None) \<noteq> with_trunk_single_cond self then Inl AssertionError
     else if (trunk_pair_cond \<noteq> None) \<noteq> with_trunk_pair_cond self then Inl AssertionError
     else
       let token_atoms_single_cond = fst (per_atom_conditioning self batch);
           token_atoms_mask = atom_mask batch
       in
       then_do (convert (token_atoms_to_queries batch) token_atoms_single_cond [- 3, - 2])
         (\<lambda>queries_single_cond.
       then_do (convert (token_atoms_to_queries batch) token_atoms_mask [- 2, - 1])
         (\<lambda>queries_mask.
       then_do (case token_atoms_act of
                  None \<Rightarrow> Inr queries_single_cond
                | Some _ \<Rightarrow> Inl NotImplementedError)
         (\<lambda>queries_act.
       then_do (convert (queries_to_keys batch) queries_single_cond [- 3, - 2])
         (\<lambda>keys_single_cond.
       then_do (convert (queries_to_keys batch) queries_mask [- 2, - 1])
         (\<lambda>keys_mask.
       let row_act = single_to_pair_cond_row_1 self (relu ops queries_single_cond) in
       then_do (convert (queries_to_keys batch) queries_single_cond [- 3, - 2])
         (\<lambda>pair_cond_keys_input.
       let col_act = single_to_pair_cond_col_1 self (relu ops pair_cond_keys_input);
           pair_act = outer_add ops row_act col_act
       in
       then_do (case trunk_pair_cond of
                  None \<Rightarrow> Inr ()
                | Some _ \<Rightarrow> Inl NotImplementedError)
         (\<lambda>_.
       then_do (convert (token_atoms_to_queries batch) (ref_positions batch) [- 3, - 2])
         (\<lambda>queries_ref_pos.
       then_do (convert (token_atoms_to_queries batch) (ref_space_uid batch) [- 2, - 1])
         (\<lambda>queries_ref_space_uid.
       then_do (convert (queries_to_keys batch) queries_ref_pos [- 3, - 2])
         (\<lambda>keys_ref_pos.
       then_do (convert (queries_to_keys batch) (ref_space_uid batch) [- 2, - 1])
         (\<lambda>keys_ref_space_uid.
       let offsets_valid = outer_eq ops queries_ref_space_uid keys_ref_space_uid;
           offsets = outer_sub ops queries_ref_pos keys_ref_pos;
           pair_act = iadd ops pair_act
                        (mul_last ops (embed_pair_offsets_1 self offsets) offsets_valid);
           pair_act = iadd ops pair_act
                        (mul_last ops (embed_pair_distances_1 self (inv_sq_dists ops offsets))
                           offsets_valid);
           pair_act = iadd ops pair_act
                        (embed_pair_offsets_valid self (unsqueeze_last ops offsets_valid));
           pair_act2 = pair_mlp_1 self (relu ops pair_act);
           pair_act2 = pair_mlp_2 self (relu ops pair_act2);
           pair_act = iadd ops pair_act (pair_mlp_3 self (relu ops pair_act2));
           queries_act = atom_transformer_encoder self queries_act queries_mask
                           (queries_to_keys batch) keys_mask queries_single_cond
                           keys_single_cond pair_act;
           queries_act = mul_last ops queries_act queries_mask;
           skip = queries_act;
           queries_act = project_atom_features_for_aggr self queries_act
       in
       then_do (convert (queries_to_token_atoms batch) queries_act [- 3, - 2])
         (\<lambda>token_atoms_act.
       Inr \<lparr>token_act = mask_mean ops token_atoms_mask (relu ops token_atoms_act),
            skip_connection = skip,
            queries_mask = queries_mask,
            queries_single_cond = queries_single_cond,
            keys_mask = keys_mask,
            keys_single_cond = keys_single_cond,
            pair_cond = pair_act\<rparr>)))))))))))))"

section \<open>Concrete inputs\<close>

text \<open>
  Two layouts of two slots, the second slot padding: they differ only in the padding entry
  of \<open>atom_name\<close>, the empty string in one and \<open>None\<close> in the other.
\<close>

definition layout_A :: AtomLayout where
  "layout_A =
     \<lparr>atom_name = \<lparr>dtype = Object_dtype, np_shape = [2], np_data = [PyStr ''CA'', PyStr '''']\<rparr>,
      res_id = \<lparr>dtype = Native_dtype, np_shape = [2], np_data = [PyInt 1, PyInt 0]\<rparr>,
      chain_id = \<lparr>dtype = Object_dtype, np_shape = [2], np_data = [PyStr ''A'', PyStr '''']\<rparr>,
      atom_element = None, res_name = None, chain_type = None\<rparr>"

definition layout_B :: AtomLayout where
  "layout_B =
     \<lparr>atom_name = \<lparr>dtype = Object_dtype, np_shape = [2], np_data = [PyStr ''CA'', PyNone]\<rparr>,
      res_id = \<lparr>dtype = Native_dtype, np_shape = [2], np_data = [PyInt 1, PyInt 0]\<rparr>,
      chain_id = \<lparr>dtype = Object_dtype, np_shape = [2], np_data = [PyStr ''A'', PyStr '''']\<rparr>,
      atom_element = None, res_name = None, chain_type = None\<rparr>"

text \<open>
  A layout that differs from \<open>layout_A\<close> in the padding slot of \<open>res_id\<close> and of \<open>chain_id\<close>
  only.
\<close>

definition layout_C :: AtomLayout where
  "layout_C =
     \<lparr>atom_name = \<lparr>dtype = Object_dtype, np_shape = [2], np_data = [PyStr ''CA'', PyStr '''']\<rparr>,
      res_id = \<lparr>dtype = Native_dtype, np_shape = [2], np_data = [PyInt 1, PyInt 77]\<rparr>,
      chain_id = \<lparr>dtype = Object_dtype, np_shape = [2], np_data = [PyStr ''A'', PyStr ''Z'']\<rparr>,
      atom_element = None, res_name = None, chain_type = None\<rparr>"

text \<open>
  A layout with all six fields, and an array of five rows, which is not a stacked layout.
\<close>

definition layout_full :: AtomLayout where
  "layout_full =
     \<lparr>atom_name = \<lparr>dtype = Object_dtype, np_shape = [2], np_data = [PyStr ''N'', PyStr ''CA'']\<rparr>,
      res_id = \<lparr>dtype = Native_dtype, np_shape = [2], np_data = [PyInt 1, PyInt 1]\<rparr>,
      chain_id = \<lparr>dtype = Object_dtype, np_shape = [2], np_data = [PyStr ''A'', PyStr ''A'']\<rparr>,
      atom_element = Some \<lparr>dtype = Object_dtype, np_shape = [2], np_data = [PyStr ''N'', PyStr ''C'']\<rparr>,
      res_name = Some \<lparr>dtype = Object_dtype, np_shape = [2], np_data = [PyStr ''LEU'', PyStr ''LEU'']\<rparr>,
      chain_type = Some \<lparr>dtype = Object_dtype, np_shape = [2],
                         np_data = [PyStr ''polypeptide(L)'', PyStr ''polypeptide(L)'']\<rparr>\<rparr>"

definition stacked_five :: np_array where
  "stacked_five = \<lparr>dtype = Object_dtype, np_shape = [5, 1],
                    np_data = [PyStr ''N'', PyInt 1, PyStr ''A'', PyStr ''N'', PyStr ''LEU'']\<rparr>"

text \<open>
  Gather maps over a source layout of two positions: one with an index beyond the source,
  one that swaps the two positions, one whose mask is false everywhere; and two arrays of
  finite numbers, of two and of three elements.
\<close>

definition gather_out_of_range :: GatherInfo where
  "gather_out_of_range =
     \<lparr>gather_idxs = \<lparr>tensor_shape = [1], tensor_data = [5]\<rparr>,
      gather_mask = \<lparr>tensor_shape = [1], tensor_data = [True]\<rparr>,
      input_shape = [2]\<rparr>"

definition gather_swap :: GatherInfo where
  "gather_swap =
     \<lparr>gather_idxs = \<lparr>tensor_shape = [2], tensor_data = [1, 0]\<rparr>,
      gather_mask = \<lparr>tensor_shape = [2], tensor_data = [True, True]\<rparr>,
      input_shape = [2]\<rparr>"

definition gather_masked :: GatherInfo where
  "gather_masked =
     \<lparr>gather_idxs = \<lparr>tensor_shape = [2], tensor_data = [1, 0]\<rparr>,
      gather_mask = \<lparr>tensor_shape = [2], tensor_data = [False, False]\<rparr>,
      input_shape = [2]\<rparr>"

definition arr_two :: "int ieee tensor" where
  "arr_two = \<lparr>tensor_shape = [2], tensor_data = map Finite [1, 2]\<rparr>"

definition arr_three :: "int ieee tensor" where
  "arr_three = \<lparr>tensor_shape = [3], tensor_data = map Finite [5, 6, 7]\<rparr>"

text \<open>A floating-point array that holds an infinity.\<close>

definition arr_inf :: "int ieee tensor" where
  "arr_inf = \<lparr>tensor_shape = [2], tensor_data = [Finite 5, PosInf]\<rparr>"

text \<open>
  A batch of one token with one atom slot, with identity gather maps, and an encoder on
  integer tensors whose layers and operations return their first argument: enough to run
  \<open>forward\<close> through every conversion.
\<close>

definition batch_one :: "int ieee Batch" where
  "batch_one =
     \<lparr>ref_positions = \<lparr>tensor_shape = [1, 1, 3], tensor_data = map Finite [0, 0, 0]\<rparr>,
      ref_mask = \<lparr>tensor_shape = [1, 1], tensor_data = map Finite [1]\<rparr>,
      ref_element = \<lparr>tensor_shape = [1, 1], tensor_data = map Finite [6]\<rparr>,
      ref_charge = \<lparr>tensor_shape = [1, 1], tensor_data = map Finite [0]\<rparr>,
      ref_atom_name_chars = \<lparr>tensor_shape = [1, 1, 4], tensor_data = map Finite [35, 33, 0, 0]\<rparr>,
      ref_space_uid = \<lparr>tensor_shape = [1, 1], tensor_data = map Finite [0]\<rparr>,
      atom_mask = \<lparr>tensor_shape = [1, 1], tensor_data = map Finite [1]\<rparr>,
      token_atoms_to_queries = identity_gather_info [1, 1],
      queries_to_keys = identity_gather_info [1, 1],
      queries_to_token_atoms = identity_gather_info [1, 1]\<rparr>"

definition ops_first :: "int ieee encoder_ops" where
  "ops_first =
     \<lparr>relu = (\<lambda>x. x), outer_add = (\<lambda>x y. x), outer_eq = (\<lambda>x y. x), outer_sub = (\<lambda>x y. x),
      mul_last = (\<lambda>x y. x), inv_sq_dists = (\<lambda>x. x), unsqueeze_last = (\<lambda>x. x),
      iadd = (\<lambda>x y. x), mask_mean = (\<lambda>m x. x)\<rparr>"

definition encoder_plain :: "int ieee AtomCrossAttEncoder" where
  "encoder_plain =
     \<lparr>with_token_atoms_act = False, with_trunk_single_cond = False,
      with_trunk_pair_cond = False,
      per_atom_conditioning = (\<lambda>b. (ref_positions b, ref_positions b)),
      single_to_pair_cond_row_1 = (\<lambda>x. x), single_to_pair_cond_col_1 = (\<lambda>x. x),
      embed_pair_offsets_1 = (\<lambda>x. x), embed_pair_distances_1 = (\<lambda>x. x),
      embed_pair_offsets_valid = (\<lambda>x. x),
      pair_mlp_1 = (\<lambda>x. x), pair_mlp_2 = (\<lambda>x. x), pair_mlp_3 = (\<lambda>x. x),
      atom_transformer_encoder = (\<lambda>queries_act _ _ _ _ _ _. queries_act),
      project_atom_features_for_aggr = (\<lambda>x. x)\<rparr>"

definition trunk_input :: "int ieee tensor" where
  "trunk_input = \<lparr>tensor_shape = [1, 1], tensor_data = map Finite [9]\<rparr>"

section \<open>Properties\<close>

subsection \<open>Rows of row-major data\<close>

lemma length_row: "(r + 1) * m \<le> length xs \<Longrightarrow> length (row m r xs) = m"
  by (simp add: row_def)

lemma row_concat:
  "\<forall>xs \<in> set xss. length xs = m \<Longrightarrow> i < length xss \<Longrightarrow> row m i (concat xss @ zs) = xss ! i"
proof (induction xss arbitrary: i)
  case Nil
  then show ?case by simp
next
  case (Cons ys xss)
  show ?case
  proof (cases i)
    case 0
    with Cons.prems show ?thesis by (simp add: row_def)
  next
    case (Suc j)
    have "row m j (concat xss @ zs) = xss ! j"
      using Cons.prems Suc by (intro Cons.IH) auto
    with Cons.prems Suc show ?thesis by (simp add: row_def)
  qed
qed

lemma row_Suc: "row m (Suc r) xs = row m r (drop m xs)"
  by (simp add: row_def add.commute)

lemma concat_rows:
  "length xs = d * m \<Longrightarrow> concat (map (\<lambda>r. row m r xs) [0 ..< d]) = xs"
proof (induction d arbitrary: xs)
  case 0
  then show ?case by simp
next
  case (Suc d)
  have u: "[0 ..< Suc d] = 0 # map Suc [0 ..< d]"
    by (metis map_Suc_upt upt_conv_Cons zero_less_Suc)
  have "concat (map (\<lambda>r. row m r xs) [0 ..< Suc d])
      = row m 0 xs @ concat (map (\<lambda>r. row m (Suc r) xs) [0 ..< d])"
    unfolding u by (simp add: comp_def)
  also have "\<dots> = take m xs @ concat (map (\<lambda>r. row m r (drop m xs)) [0 ..< d])"
    unfolding row_Suc by (simp add: row_def)
  also have "concat (map (\<lambda>r. row m r (drop m xs)) [0 ..< d]) = drop m xs"
    using Suc.prems by (intro Suc.IH) simp
  finally show ?case by simp
qed

lemma length_pad_data:
  "length ps = length ds \<Longrightarrow> length xs = prod_list ds \<Longrightarrow>
   length (pad_data ps ds c xs) = prod_list (pad_shape ps ds)"
proof (induction ps ds c xs rule: pad_data.induct)
  case (1 before after ps d ds c xs)
  have "length (pad_data ps ds c (row (prod_list ds) r xs)) = prod_list (pad_shape ps ds)"
    if "r < d" for r
  proof -
    have "(r + 1) * prod_list ds \<le> length xs"
      using that "1.prems"(2) by (simp add: Suc_leI mult_le_mono1 del: mult_Suc)
    then show ?thesis
      using that "1.prems" by (intro "1.IH") (simp_all add: length_row)
  qed
  then have "map (\<lambda>r. length (pad_data ps ds c (row (prod_list ds) r xs))) [0 ..< d]
      = map (\<lambda>r. prod_list (pad_shape ps ds)) [0 ..< d]"
    by (intro map_cong) auto
  then have "sum_list (map (\<lambda>r. length (pad_data ps ds c (row (prod_list ds) r xs))) [0 ..< d])
      = d * prod_list (pad_shape ps ds)"
    by (simp only: sum_list_triv length_map length_upt) simp
  then show ?case
    by (simp add: Let_def length_concat comp_def add_mult_distrib)
qed simp_all

subsection \<open>Masked equality of layouts\<close>

lemma select_agree:
  "length xs = length ys \<Longrightarrow> agree_where m xs ys \<Longrightarrow> select m xs = select m ys"
proof (induction m arbitrary: xs ys)
  case Nil
  then show ?case by (simp add: select_def)
next
  case (Cons v m)
  then show ?case
    by (cases xs; cases ys) (auto simp: select_def agree_where_def)
qed

lemma AtomLayout_ok_shapes:
  assumes "AtomLayout_ok l"
  shows "np_shape (res_id l) = np_shape (atom_name l)"
    and "np_shape (chain_id l) = np_shape (atom_name l)"
    and "atom_element l = Some x \<Longrightarrow> np_shape x = np_shape (atom_name l)"
    and "res_name l = Some x \<Longrightarrow> np_shape x = np_shape (atom_name l)"
    and "chain_type l = Some x \<Longrightarrow> np_shape x = np_shape (atom_name l)"
    and "dtype (atom_name l) = Object_dtype"
  using assms
  by (auto simp: AtomLayout_ok_def AtomLayout_post_init_def
      assert_all_arrays_have_same_shape_def split: if_splits option.splits)

lemma masked_array_equal_agree:
  assumes "np_shape x = s" "np_shape y = s" "np_array_ok x" "np_array_ok y"
    and "agree_where m (np_data x) (np_data y)"
  shows "masked_array_equal s m x y = Inr True"
  using assms select_agree [of "np_data x" "np_data y" m]
  by (simp add: masked_array_equal_def mask_index_def np_array_ok_def)

lemma AtomLayout_eq_agree:
  assumes "AtomLayout_ok a" and "AtomLayout_ok b"
    and "array_equal (atom_name a) (atom_name b)"
    and "agree_on_valid_slots a b"
  shows "AtomLayout_eq a b = Inr True"
proof -
  let ?s = "np_shape (atom_name a)"
  let ?m = "astype_bool (atom_name a)"
  have sb: "np_shape (atom_name b) = ?s"
    using assms(3) by (simp add: array_equal_def)
  have ok: "np_array_ok (res_id a)" "np_array_ok (res_id b)"
    "np_array_ok (chain_id a)" "np_array_ok (chain_id b)"
    "opt_array_ok (atom_element a)" "opt_array_ok (atom_element b)"
    "opt_array_ok (res_name a)" "opt_array_ok (res_name b)"
    "opt_array_ok (chain_type a)" "opt_array_ok (chain_type b)"
    using assms(1,2) by (simp_all add: AtomLayout_ok_def)
  have ag: "agree_where ?m (np_data (res_id a)) (np_data (res_id b))"
    "agree_where ?m (np_data (chain_id a)) (np_data (chain_id b))"
    "opt_agree_where ?m (atom_element a) (atom_element b)"
    "opt_agree_where ?m (res_name a) (res_name b)"
    "opt_agree_where ?m (chain_type a) (chain_type b)"
    using assms(4) by (simp_all add: agree_on_valid_slots_def Let_def)
  have r: "masked_array_equal ?s ?m (res_id a) (res_id b) = Inr True"
    using AtomLayout_ok_shapes(1) [OF assms(1)] AtomLayout_ok_shapes(1) [OF assms(2)] sb ok ag
    by (intro masked_array_equal_agree) simp_all
  have c: "masked_array_equal ?s ?m (chain_id a) (chain_id b) = Inr True"
    using AtomLayout_ok_shapes(2) [OF assms(1)] AtomLayout_ok_shapes(2) [OF assms(2)] sb ok ag
    by (intro masked_array_equal_agree) simp_all
  have opt: "fields_equal ?s ?m ((p, q) # rest) = fields_equal ?s ?m rest"
    if "opt_array_ok p" "opt_array_ok q" "opt_agree_where ?m p q"
      "\<And>x. p = Some x \<Longrightarrow> np_shape x = ?s" "\<And>y. q = Some y \<Longrightarrow> np_shape y = ?s"
    for p q rest
  proof (cases p)
    case None
    then show ?thesis by simp
  next
    case (Some x)
    show ?thesis
    proof (cases q)
      case None
      with Some show ?thesis by simp
    next
      case (Some y)
      have "masked_array_equal ?s ?m x y = Inr True"
        using that \<open>p = Some x\<close> Some
        by (intro masked_array_equal_agree) (simp_all add: opt_array_ok_def opt_agree_where_def)
      with \<open>p = Some x\<close> Some show ?thesis by simp
    qed
  qed
  have e: "fields_equal ?s ?m ((atom_element a, atom_element b) # rest) = fields_equal ?s ?m rest" for rest
    using AtomLayout_ok_shapes(3) [OF assms(1)] AtomLayout_ok_shapes(3) [OF assms(2)] sb ok ag
    by (intro opt) simp_all
  have n: "fields_equal ?s ?m ((res_name a, res_name b) # rest) = fields_equal ?s ?m rest" for rest
    using AtomLayout_ok_shapes(4) [OF assms(1)] AtomLayout_ok_shapes(4) [OF assms(2)] sb ok ag
    by (intro opt) simp_all
  have t: "fields_equal ?s ?m ((chain_type a, chain_type b) # rest) = fields_equal ?s ?m rest" for rest
    using AtomLayout_ok_shapes(5) [OF assms(1)] AtomLayout_ok_shapes(5) [OF assms(2)] sb ok ag
    by (intro opt) simp_all
  show ?thesis
    using assms(3) by (simp add: AtomLayout_eq_def Let_def r c e n t)
qed


lemma select_eq_iff_agree:
  "length xs = length m \<Longrightarrow> length ys = length m \<Longrightarrow>
   (select m xs = select m ys) = agree_where m xs ys"
proof (induction m arbitrary: xs ys)
  case Nil
  then show ?case by (simp add: select_def agree_where_def)
next
  case (Cons v m)
  obtain x xs' where xs: "xs = x # xs'" using Cons.prems(1) by (cases xs) auto
  obtain y ys' where ys: "ys = y # ys'" using Cons.prems(2) by (cases ys) auto
  have ih: "(select m xs' = select m ys') = agree_where m xs' ys'"
    using Cons.prems xs ys by (intro Cons.IH) simp_all
  show ?case
    using ih by (auto simp: xs ys select_def agree_where_def)
qed

lemma masked_array_equal_iff:
  assumes "np_shape x = s" "np_shape y = s" "np_array_ok x" "np_array_ok y"
    and "length m = prod_list s"
  shows "masked_array_equal s m x y = Inr (agree_where m (np_data x) (np_data y))"
  using assms select_eq_iff_agree [of "np_data x" m "np_data y"]
  by (simp add: masked_array_equal_def mask_index_def np_array_ok_def)

lemma agree_where_same: "agree_where m xs xs"
  by (auto simp: agree_where_def list_all_iff zip_same in_set_zip)

lemma AtomLayout_eq_characterised:
  assumes oka: "AtomLayout_ok a" and okb: "AtomLayout_ok b"
  shows "AtomLayout_eq a b
     = Inr (array_equal (atom_name a) (atom_name b) \<and> agree_on_valid_slots a b)"
proof (cases "array_equal (atom_name a) (atom_name b)")
  case False
  then show ?thesis by (simp add: AtomLayout_eq_def)
next
  case True
  let ?s = "np_shape (atom_name a)"
  let ?m = "astype_bool (atom_name a)"
  have sb: "np_shape (atom_name b) = ?s" and db: "np_data (atom_name b) = np_data (atom_name a)"
    using True by (simp_all add: array_equal_def)
  have lm: "length ?m = prod_list ?s"
    using oka by (simp add: astype_bool_def AtomLayout_ok_def np_array_ok_def)
  have ok: "np_array_ok (res_id a)" "np_array_ok (res_id b)"
    "np_array_ok (chain_id a)" "np_array_ok (chain_id b)"
    "opt_array_ok (atom_element a)" "opt_array_ok (atom_element b)"
    "opt_array_ok (res_name a)" "opt_array_ok (res_name b)"
    "opt_array_ok (chain_type a)" "opt_array_ok (chain_type b)"
    using oka okb by (simp_all add: AtomLayout_ok_def)
  note sha = AtomLayout_ok_shapes [OF oka] and shb = AtomLayout_ok_shapes [OF okb]
  have r: "masked_array_equal ?s ?m (res_id a) (res_id b)
      = Inr (agree_where ?m (np_data (res_id a)) (np_data (res_id b)))"
    using sha(1) shb(1) sb ok lm by (intro masked_array_equal_iff) simp_all
  have c: "masked_array_equal ?s ?m (chain_id a) (chain_id b)
      = Inr (agree_where ?m (np_data (chain_id a)) (np_data (chain_id b)))"
    using sha(2) shb(2) sb ok lm by (intro masked_array_equal_iff) simp_all
  have opt: "fields_equal ?s ?m ((p, q) # rest)
      = (if opt_agree_where ?m p q then fields_equal ?s ?m rest else Inr False)"
    if "opt_array_ok p" "opt_array_ok q"
      "\<And>x. p = Some x \<Longrightarrow> np_shape x = ?s" "\<And>y. q = Some y \<Longrightarrow> np_shape y = ?s"
    for p q rest
  proof (cases p)
    case None
    then show ?thesis by (simp add: opt_agree_where_def)
  next
    case (Some x)
    show ?thesis
    proof (cases q)
      case None
      with Some show ?thesis by (simp add: opt_agree_where_def)
    next
      case (Some y)
      have "masked_array_equal ?s ?m x y = Inr (agree_where ?m (np_data x) (np_data y))"
        using that \<open>p = Some x\<close> Some lm
        by (intro masked_array_equal_iff) (simp_all add: opt_array_ok_def)
      with \<open>p = Some x\<close> Some show ?thesis by (simp add: opt_agree_where_def)
    qed
  qed
  have e: "fields_equal ?s ?m ((atom_element a, atom_element b) # rest)
      = (if opt_agree_where ?m (atom_element a) (atom_element b)
         then fields_equal ?s ?m rest else Inr False)" for rest
    using sha(3) shb(3) sb ok by (intro opt) simp_all
  have n: "fields_equal ?s ?m ((res_name a, res_name b) # rest)
      = (if opt_agree_where ?m (res_name a) (res_name b)
         then fields_equal ?s ?m rest else Inr False)" for rest
    using sha(4) shb(4) sb ok by (intro opt) simp_all
  have t: "fields_equal ?s ?m ((chain_type a, chain_type b) # rest)
      = (if opt_agree_where ?m (chain_type a) (chain_type b)
         then fields_equal ?s ?m rest else Inr False)" for rest
    using sha(5) shb(5) sb ok by (intro opt) simp_all
  have an: "agree_where ?m (np_data (atom_name a)) (np_data (atom_name b))"
    by (simp add: db agree_where_same)
  show ?thesis
    using True an
    by (simp add: AtomLayout_eq_def Let_def r c e n t agree_on_valid_slots_def)
qed

lemma layout_A_ok: "AtomLayout_ok layout_A"
  by (simp add: layout_A_def AtomLayout_ok_def AtomLayout_post_init_def
      assert_all_arrays_have_same_shape_def np_array_ok_def opt_array_ok_def)

lemma layout_B_ok: "AtomLayout_ok layout_B"
  by (simp add: layout_B_def AtomLayout_ok_def AtomLayout_post_init_def
      assert_all_arrays_have_same_shape_def np_array_ok_def opt_array_ok_def)

lemma layout_C_ok: "AtomLayout_ok layout_C"
  by (simp add: layout_C_def AtomLayout_ok_def AtomLayout_post_init_def
      assert_all_arrays_have_same_shape_def np_array_ok_def opt_array_ok_def)

text \<open>
  Claim C3, as stated, fails: \<open>layout_A\<close> and \<open>layout_B\<close> have the same shape and agree on
  every valid slot of every field; they differ in one padding entry of \<open>atom_name\<close> (the
  empty string against \<open>None\<close>), and \<open>__eq__\<close> answers \<open>False\<close>, because its first test
  compares the two \<open>atom_name\<close> arrays whole.
\<close>

theorem AtomLayout_eq_padding_name_counterexample:
  "AtomLayout_ok layout_A \<and> AtomLayout_ok layout_B \<and>
   AtomLayout_shape layout_A = AtomLayout_shape layout_B \<and>
   agree_on_valid_slots layout_A layout_B \<and>
   AtomLayout_eq layout_A layout_B = Inr False"
  using layout_A_ok layout_B_ok
  by (simp add: layout_A_def layout_B_def AtomLayout_shape_def agree_on_valid_slots_def
      agree_where_def opt_agree_where_def astype_bool_def AtomLayout_eq_def array_equal_def)

text \<open>
  Claim C3, amended: two layouts are equal if and only if their \<open>atom_name\<close> arrays are
  equal in every slot, padding entries included, and their other fields agree on every
  valid slot (an optional field being compared when both layouts have it). The padding slots
  of the fields other than \<open>atom_name\<close> are not compared.
\<close>

theorem AtomLayout_eq_masked:
  assumes "AtomLayout_ok a" and "AtomLayout_ok b"
  shows "AtomLayout_eq a b
     = Inr (array_equal (atom_name a) (atom_name b) \<and> agree_on_valid_slots a b)"
  using assms by (rule AtomLayout_eq_characterised)

theorem AtomLayout_eq_masked_witness:
  "AtomLayout_ok layout_A \<and> AtomLayout_ok layout_C \<and> AtomLayout_ok layout_B \<and>
   res_id layout_A \<noteq> res_id layout_C \<and> chain_id layout_A \<noteq> chain_id layout_C \<and>
   array_equal (atom_name layout_A) (atom_name layout_C) \<and>
   agree_on_valid_slots layout_A layout_C \<and>
   AtomLayout_eq layout_A layout_C = Inr True \<and>
   \<not> array_equal (atom_name layout_A) (atom_name layout_B) \<and>
   AtomLayout_eq layout_A layout_B = Inr False"
proof -
  have a: "array_equal (atom_name layout_A) (atom_name layout_C)"
    by (simp add: array_equal_def layout_A_def layout_C_def)
  have b: "agree_on_valid_slots layout_A layout_C"
    by (simp add: layout_A_def layout_C_def agree_on_valid_slots_def agree_where_def
        opt_agree_where_def astype_bool_def)
  have c: "\<not> array_equal (atom_name layout_A) (atom_name layout_B)"
    by (simp add: array_equal_def layout_A_def layout_B_def)
  have d: "res_id layout_A \<noteq> res_id layout_C \<and> chain_id layout_A \<noteq> chain_id layout_C"
    by (simp add: layout_A_def layout_C_def)
  show ?thesis
    using AtomLayout_eq_masked [OF layout_A_ok layout_C_ok]
      AtomLayout_eq_masked [OF layout_A_ok layout_B_ok]
      layout_A_ok layout_B_ok layout_C_ok a b c d
    by simp
qed

subsection \<open>Padding a layout and slicing it back\<close>

lemma index_shape_pad:
  "length ps = length ds \<Longrightarrow> list_all (\<lambda>p. fst p = 0) ps \<Longrightarrow>
   index_shape (original_extents ds) (pad_shape ps ds) = Inr ds"
proof (induction ps ds rule: pad_shape.induct)
  case (1 before after ps d ds)
  then show ?case
    by (simp add: original_extents_def slice_start_def slice_stop_def clamp_index_def)
qed (simp_all add: original_extents_def)

lemma index_data_pad:
  "length ps = length ds \<Longrightarrow> list_all (\<lambda>p. fst p = 0) ps \<Longrightarrow> length xs = prod_list ds \<Longrightarrow>
   index_data (original_extents ds) (pad_shape ps ds) (pad_data ps ds c xs) = xs"
proof (induction ps ds c xs rule: pad_data.induct)
  case (1 before after ps d ds c xs)
  let ?m = "prod_list ds"
  let ?m' = "prod_list (pad_shape ps ds)"
  let ?blocks = "map (\<lambda>r. pad_data ps ds c (row ?m r xs)) [0 ..< d]"
  have b0: "before = 0" using "1.prems"(2) by simp
  have len: "length xs = d * ?m" using "1.prems"(3) by simp
  have rowlen: "length (row ?m r xs) = ?m" if "r < d" for r
  proof -
    have "(r + 1) * ?m \<le> d * ?m" using that by (intro mult_le_mono1) simp
    then show ?thesis using len by (intro length_row) simp
  qed
  have blen: "\<forall>ys \<in> set ?blocks. length ys = ?m'"
    using "1.prems" rowlen by (auto intro!: length_pad_data)
  have pd: "pad_data ((before, after) # ps) (d # ds) c xs = concat ?blocks @ replicate (after * ?m') c"
    using b0 by (simp add: Let_def)
  have ext: "original_extents (d # ds) = Slice_idx (Some 0) (Some (int d)) # original_extents ds"
    by (simp add: original_extents_def)
  have sl: "slice_start (Some 0) (before + d + after) = 0" "slice_stop (Some (int d)) (before + d + after) = d"
    by (simp_all add: slice_start_def slice_stop_def clamp_index_def)
  have each: "index_data (original_extents ds) (pad_shape ps ds)
        (row ?m' r (concat ?blocks @ replicate (after * ?m') c)) = row ?m r xs" if "r < d" for r
  proof -
    have "row ?m' r (concat ?blocks @ replicate (after * ?m') c) = ?blocks ! r"
      using blen that by (intro row_concat) simp_all
    also have "\<dots> = pad_data ps ds c (row ?m r xs)" using that by simp
    finally show ?thesis
      using "1.prems" that rowlen by (simp add: "1.IH")
  qed
  have "index_data (original_extents (d # ds)) (pad_shape ((before, after) # ps) (d # ds))
          (pad_data ((before, after) # ps) (d # ds) c xs)
      = concat (map (\<lambda>r. index_data (original_extents ds) (pad_shape ps ds)
          (row ?m' r (concat ?blocks @ replicate (after * ?m') c))) [0 ..< d])"
    unfolding pd ext by (simp add: sl)
  also have "\<dots> = concat (map (\<lambda>r. row ?m r xs) [0 ..< d])"
    by (rule arg_cong [where f = concat], rule map_cong) (simp_all add: each)
  also have "\<dots> = xs" using len by (rule concat_rows)
  finally show ?case .
qed (simp_all add: original_extents_def)

lemma pad_width_of_props:
  "length shape = length old_shape \<Longrightarrow>
   length (pad_width_of old_shape shape) = length old_shape \<and>
   list_all (\<lambda>p. fst p = 0) (pad_width_of old_shape shape)"
  by (auto simp: pad_width_of_def list_all_iff)

lemma pad_shape_pad_width_of:
  "list_all2 (\<lambda>old new. int old \<le> new) old_shape shape \<Longrightarrow>
   pad_shape (pad_width_of old_shape shape) old_shape = map nat shape"
  by (induction old_shape shape rule: list_all2_induct) (auto simp: pad_width_of_def)

lemma np_getitem_np_pad:
  assumes "np_array_ok a" and "length ps = length (np_shape a)" and "list_all (\<lambda>p. fst p = 0) ps"
  shows "np_getitem (original_extents (np_shape a)) (np_pad a ps c) = Inr a"
  using assms
  by (simp add: np_getitem_def np_pad_def index_shape_pad index_data_pad np_array_ok_def)

lemma opt_getitem_np_pad:
  assumes "opt_array_ok a" and "\<And>x. a = Some x \<Longrightarrow> np_shape x = ds"
    and "length ps = length ds" and "list_all (\<lambda>p. fst p = 0) ps"
  shows "opt_getitem (original_extents ds) (map_option (\<lambda>x. np_pad x ps c) a) = Inr a"
proof (cases a)
  case None
  then show ?thesis by (simp add: opt_getitem_def)
next
  case (Some x)
  then have "np_getitem (original_extents (np_shape x)) (np_pad x ps c) = Inr x"
    using assms by (intro np_getitem_np_pad) (simp_all add: opt_array_ok_def)
  then show ?thesis using Some assms(2) by (simp add: opt_getitem_def)
qed

lemma list_ex_smaller_iff:
  "length shape = length old_shape \<Longrightarrow>
   list_ex (\<lambda>(old, new). new < int old) (zip old_shape shape)
     \<longleftrightarrow> \<not> list_all2 (\<lambda>old new. int old \<le> new) old_shape shape"
  by (fastforce simp: list_ex_iff list_all2_iff not_le)

lemma copy_and_pad_to_ok:
  assumes ok: "AtomLayout_ok l"
    and fits: "list_all2 (\<lambda>old new. int old \<le> new) (AtomLayout_shape l) shape"
  shows "copy_and_pad_to l shape =
     Inr \<lparr>atom_name = np_pad (atom_name l) (pad_width_of (AtomLayout_shape l) shape) (PyStr ''''),
          res_id = np_pad (res_id l) (pad_width_of (AtomLayout_shape l) shape) (PyInt 0),
          chain_id = np_pad (chain_id l) (pad_width_of (AtomLayout_shape l) shape) (PyStr ''''),
          atom_element = map_option (\<lambda>a. np_pad a (pad_width_of (AtomLayout_shape l) shape) (PyStr '''')) (atom_element l),
          res_name = map_option (\<lambda>a. np_pad a (pad_width_of (AtomLayout_shape l) shape) (PyStr '''')) (res_name l),
          chain_type = map_option (\<lambda>a. np_pad a (pad_width_of (AtomLayout_shape l) shape) (PyStr '''')) (chain_type l)\<rparr>"
proof -
  have len: "length shape = length (np_shape (atom_name l))"
    using fits by (simp add: AtomLayout_shape_def list_all2_lengthD)
  have noex: "\<not> list_ex (\<lambda>(old, new). new < int old) (zip (np_shape (atom_name l)) shape)"
    using fits len by (simp add: list_ex_smaller_iff AtomLayout_shape_def)
  note sh = AtomLayout_ok_shapes [OF ok]
  have opt: "(case map_option (\<lambda>a. np_pad a ps c) f of None \<Rightarrow> True
        | Some x \<Rightarrow> np_shape x = pad_shape ps (np_shape (atom_name l)))"
    if "\<And>x. f = Some x \<Longrightarrow> np_shape x = np_shape (atom_name l)" for f ps c
    using that by (cases f) (simp_all add: np_pad_def)
  show ?thesis
    using len noex sh(1,2,6) opt [OF sh(3)] opt [OF sh(4)] opt [OF sh(5)]
    by (simp add: copy_and_pad_to_def Let_def AtomLayout_post_init_def
        assert_all_arrays_have_same_shape_def pad_width_of_def AtomLayout_shape_def np_pad_def)
qed

lemma copy_and_pad_to_slices_back:
  assumes ok: "AtomLayout_ok l"
    and fits: "list_all2 (\<lambda>old new. int old \<le> new) (AtomLayout_shape l) shape"
    and p: "copy_and_pad_to l shape = Inr p"
  shows "AtomLayout_shape p = map nat shape"
    and "AtomLayout_getitem (original_extents (AtomLayout_shape l)) p = Inr l"
proof -
  let ?ds = "AtomLayout_shape l"
  let ?ps = "pad_width_of ?ds shape"
  have len: "length shape = length ?ds"
    using fits by (simp add: list_all2_lengthD)
  note pw = pad_width_of_props [OF len]
  note sh = AtomLayout_ok_shapes [OF ok]
  have oks: "np_array_ok (atom_name l)" "np_array_ok (res_id l)" "np_array_ok (chain_id l)"
    "opt_array_ok (atom_element l)" "opt_array_ok (res_name l)" "opt_array_ok (chain_type l)"
    "np_shape (atom_name l) \<noteq> []" "AtomLayout_post_init l = Inr l"
    using ok by (simp_all add: AtomLayout_ok_def)
  have pe: "p = \<lparr>atom_name = np_pad (atom_name l) ?ps (PyStr ''''),
          res_id = np_pad (res_id l) ?ps (PyInt 0),
          chain_id = np_pad (chain_id l) ?ps (PyStr ''''),
          atom_element = map_option (\<lambda>a. np_pad a ?ps (PyStr '''')) (atom_element l),
          res_name = map_option (\<lambda>a. np_pad a ?ps (PyStr '''')) (res_name l),
          chain_type = map_option (\<lambda>a. np_pad a ?ps (PyStr '''')) (chain_type l)\<rparr>"
    using copy_and_pad_to_ok [OF ok fits] p by simp
  show "AtomLayout_shape p = map nat shape"
    using pad_shape_pad_width_of [OF fits]
    by (simp add: pe AtomLayout_shape_def np_pad_def)
  have g1: "np_getitem (original_extents ?ds) (np_pad (atom_name l) ?ps (PyStr '''')) = Inr (atom_name l)"
    using np_getitem_np_pad [OF oks(1), of ?ps] pw by (simp add: AtomLayout_shape_def)
  have g2: "np_getitem (original_extents ?ds) (np_pad (res_id l) ?ps (PyInt 0)) = Inr (res_id l)"
    using np_getitem_np_pad [OF oks(2), of ?ps] pw sh(1) by (simp add: AtomLayout_shape_def)
  have g3: "np_getitem (original_extents ?ds) (np_pad (chain_id l) ?ps (PyStr '''')) = Inr (chain_id l)"
    using np_getitem_np_pad [OF oks(3), of ?ps] pw sh(2) by (simp add: AtomLayout_shape_def)
  have g4: "opt_getitem (original_extents ?ds) (map_option (\<lambda>a. np_pad a ?ps (PyStr '''')) (atom_element l))
      = Inr (atom_element l)"
    using oks(4) sh(3) pw by (intro opt_getitem_np_pad) (simp_all add: AtomLayout_shape_def)
  have g5: "opt_getitem (original_extents ?ds) (map_option (\<lambda>a. np_pad a ?ps (PyStr '''')) (res_name l))
      = Inr (res_name l)"
    using oks(5) sh(4) pw by (intro opt_getitem_np_pad) (simp_all add: AtomLayout_shape_def)
  have g6: "opt_getitem (original_extents ?ds) (map_option (\<lambda>a. np_pad a ?ps (PyStr '''')) (chain_type l))
      = Inr (chain_type l)"
    using oks(6) sh(5) pw by (intro opt_getitem_np_pad) (simp_all add: AtomLayout_shape_def)
  have eta: "\<lparr>atom_name = atom_name l, res_id = res_id l, chain_id = chain_id l,
      atom_element = atom_element l, res_name = res_name l, chain_type = chain_type l\<rparr> = l"
    by (cases l) simp
  show "AtomLayout_getitem (original_extents ?ds) p = Inr l"
    using oks(7,8) by (simp add: AtomLayout_getitem_def pe g1 g2 g3 g4 g5 g6 eta)
qed

lemma copy_and_pad_to_raises:
  assumes "length shape \<noteq> length (AtomLayout_shape l)
     \<or> list_ex (\<lambda>(old, new). new < int old) (zip (AtomLayout_shape l) shape)"
  shows "copy_and_pad_to l shape = Inl ValueError"
  using assms by (auto simp: copy_and_pad_to_def Let_def AtomLayout_shape_def)

text \<open>
  Claim C8: for a layout \<open>l\<close> and a requested shape of the same rank with no dimension
  smaller than that of \<open>l\<close>, \<open>copy_and_pad_to\<close> returns a layout of the requested shape, and
  slicing it back to the extents of \<open>l\<close> returns \<open>l\<close> itself, every field and every slot of
  it, padding or valid. For a shape of another rank, or with a smaller dimension,
  \<open>copy_and_pad_to\<close> raises \<open>ValueError\<close>.
\<close>

theorem copy_and_pad_to_round_trip:
  assumes "AtomLayout_ok l"
  shows "(list_all2 (\<lambda>old new. int old \<le> new) (AtomLayout_shape l) shape \<longrightarrow>
           (\<exists>p. copy_and_pad_to l shape = Inr p \<and> AtomLayout_shape p = map nat shape \<and>
                AtomLayout_getitem (original_extents (AtomLayout_shape l)) p = Inr l)) \<and>
         (length shape' \<noteq> length (AtomLayout_shape l)
            \<or> list_ex (\<lambda>(old, new). new < int old) (zip (AtomLayout_shape l) shape') \<longrightarrow>
          copy_and_pad_to l shape' = Inl ValueError)"
proof (intro conjI impI)
  assume fits: "list_all2 (\<lambda>old new. int old \<le> new) (AtomLayout_shape l) shape"
  obtain p where p: "copy_and_pad_to l shape = Inr p"
    using copy_and_pad_to_ok [OF assms fits] by blast
  show "\<exists>p. copy_and_pad_to l shape = Inr p \<and> AtomLayout_shape p = map nat shape \<and>
         AtomLayout_getitem (original_extents (AtomLayout_shape l)) p = Inr l"
    using p copy_and_pad_to_slices_back [OF assms fits p] by blast
next
  assume "length shape' \<noteq> length (AtomLayout_shape l)
     \<or> list_ex (\<lambda>(old, new). new < int old) (zip (AtomLayout_shape l) shape')"
  then show "copy_and_pad_to l shape' = Inl ValueError"
    by (rule copy_and_pad_to_raises)
qed

theorem copy_and_pad_to_round_trip_witness:
  "AtomLayout_ok layout_A \<and>
   list_all2 (\<lambda>old new. int old \<le> new) (AtomLayout_shape layout_A) [3] \<and>
   (\<exists>p. copy_and_pad_to layout_A [3] = Inr p \<and> AtomLayout_shape p = [3] \<and>
        AtomLayout_getitem (original_extents (AtomLayout_shape layout_A)) p = Inr layout_A) \<and>
   list_ex (\<lambda>(old, new). new < int old) (zip (AtomLayout_shape layout_A) [1]) \<and>
   copy_and_pad_to layout_A [1] = Inl ValueError \<and>
   length [2, 2 :: int] \<noteq> length (AtomLayout_shape layout_A) \<and>
   copy_and_pad_to layout_A [2, 2] = Inl ValueError"
proof -
  have a: "list_all2 (\<lambda>old new. int old \<le> new) (AtomLayout_shape layout_A) [3]"
    by (simp add: layout_A_def AtomLayout_shape_def)
  have b: "list_ex (\<lambda>(old, new). new < int old) (zip (AtomLayout_shape layout_A) [1])"
    by (simp add: layout_A_def AtomLayout_shape_def)
  have c: "length [2, 2 :: int] \<noteq> length (AtomLayout_shape layout_A)"
    by (simp add: layout_A_def AtomLayout_shape_def)
  show ?thesis
    using copy_and_pad_to_round_trip [OF layout_A_ok, of "[3]" "[1]"]
      copy_and_pad_to_round_trip [OF layout_A_ok, of "[3]" "[2, 2]"] a b c layout_A_ok
    by simp
qed

subsection \<open>Stacking a layout and reading it back\<close>

lemma agree_where_refl: "agree_where m xs xs"
  by (auto simp: agree_where_def list_all_iff zip_same in_set_zip)

lemma to_array_from_array:
  assumes ok: "AtomLayout_ok l"
    and full: "atom_element l = Some e" "res_name l = Some n" "chain_type l = Some t"
  shows "\<exists>arr l'. to_array l = Inr arr \<and> from_array arr = Inr l' \<and> AtomLayout_eq l' l = Inr True"
proof -
  let ?ds = "np_shape (atom_name l)"
  let ?m = "prod_list ?ds"
  let ?xss = "[np_data (atom_name l), np_data (res_id l), np_data (chain_id l),
              np_data e, np_data n, np_data t]"
  let ?arr = "\<lparr>dtype = Object_dtype, np_shape = 6 # ?ds, np_data = concat ?xss\<rparr>"
  note sh = AtomLayout_ok_shapes [OF ok]
  have she: "np_shape e = ?ds" "np_shape n = ?ds" "np_shape t = ?ds"
    using sh(3-5) full by simp_all
  have oks: "np_array_ok (atom_name l)" "np_array_ok (res_id l)" "np_array_ok (chain_id l)"
    "np_array_ok e" "np_array_ok n" "np_array_ok t" "?ds \<noteq> []"
    using ok full by (simp_all add: AtomLayout_ok_def opt_array_ok_def)
  have ta: "to_array l = Inr ?arr"
    using full sh(1,2,6) she by (simp add: to_array_def np_stack_def)
  have lens: "\<forall>xs \<in> set ?xss. length xs = ?m"
    using oks sh(1,2) she by (simp add: np_array_ok_def)
  have rw: "row ?m i (concat ?xss) = ?xss ! i" if "i < 6" for i
    using row_concat [OF lens, of i "[]"] that by simp
  let ?mk = "\<lambda>xs. \<lparr>dtype = Object_dtype, np_shape = ?ds, np_data = xs\<rparr>"
  have rows: "np_row ?arr 0 = ?mk (np_data (atom_name l))"
    "np_row ?arr 1 = ?mk (np_data (res_id l))"
    "np_row ?arr 2 = ?mk (np_data (chain_id l))"
    "np_row ?arr 3 = ?mk (np_data e)"
    "np_row ?arr 4 = ?mk (np_data n)"
    "np_row ?arr 5 = ?mk (np_data t)"
    using rw [of 0] rw [of 1] rw [of 2] rw [of 3] rw [of 4] rw [of 5]
    by (simp_all add: np_row_def)
  let ?l' = "\<lparr>atom_name = ?mk (np_data (atom_name l)), res_id = ?mk (np_data (res_id l)),
      chain_id = ?mk (np_data (chain_id l)), atom_element = Some (?mk (np_data e)),
      res_name = Some (?mk (np_data n)), chain_type = Some (?mk (np_data t))\<rparr>"
  have pi: "AtomLayout_post_init ?l' = Inr ?l'"
    by (simp add: AtomLayout_post_init_def assert_all_arrays_have_same_shape_def)
  have fa: "from_array ?arr = Inr ?l'"
    using oks(7) pi by (simp add: from_array_def rows [simplified])
  have ok': "AtomLayout_ok ?l'"
    using pi oks sh(1,2) she by (simp add: AtomLayout_ok_def np_array_ok_def opt_array_ok_def)
  have an: "array_equal (atom_name ?l') (atom_name l)"
    by (simp add: array_equal_def)
  have ag: "agree_on_valid_slots ?l' l"
    using full by (simp add: agree_on_valid_slots_def agree_where_refl opt_agree_where_def)
  have "AtomLayout_eq ?l' l = Inr True"
    using ok' ok an ag by (rule AtomLayout_eq_agree)
  with ta fa show ?thesis by blast
qed

lemma layout_full_ok: "AtomLayout_ok layout_full"
  by (simp add: layout_full_def AtomLayout_ok_def AtomLayout_post_init_def
      assert_all_arrays_have_same_shape_def np_array_ok_def opt_array_ok_def)

text \<open>
  Claim C7: for a layout \<open>l\<close> with all three optional fields, \<open>to_array\<close> returns an array
  from which \<open>from_array\<close> builds a layout equal to \<open>l\<close> under \<open>__eq__\<close>; \<open>to_array\<close> raises
  \<open>ValueError\<close> for a layout that lacks an optional field, and \<open>from_array\<close> raises
  \<open>ValueError\<close> for an array whose first dimension is not 6.
\<close>

theorem stack_round_trip:
  "(AtomLayout_ok l \<and> atom_element l \<noteq> None \<and> res_name l \<noteq> None \<and> chain_type l \<noteq> None \<longrightarrow>
      (\<exists>arr l'. to_array l = Inr arr \<and> from_array arr = Inr l' \<and>
                AtomLayout_eq l' l = Inr True)) \<and>
   (atom_element l2 = None \<or> res_name l2 = None \<or> chain_type l2 = None \<longrightarrow>
      to_array l2 = Inl ValueError) \<and>
   (\<forall>d ds. np_shape arr = d # ds \<and> d \<noteq> 6 \<longrightarrow> from_array arr = Inl ValueError)"
proof (intro conjI impI allI)
  assume "AtomLayout_ok l \<and> atom_element l \<noteq> None \<and> res_name l \<noteq> None \<and> chain_type l \<noteq> None"
  then show "\<exists>arr l'. to_array l = Inr arr \<and> from_array arr = Inr l' \<and>
                AtomLayout_eq l' l = Inr True"
    using to_array_from_array by auto
next
  assume "atom_element l2 = None \<or> res_name l2 = None \<or> chain_type l2 = None"
  then show "to_array l2 = Inl ValueError"
    by (auto simp: to_array_def)
next
  fix d ds
  assume "np_shape arr = d # ds \<and> d \<noteq> 6"
  then show "from_array arr = Inl ValueError"
    by (simp add: from_array_def)
qed

theorem stack_round_trip_witness:
  "AtomLayout_ok layout_full \<and> atom_element layout_full \<noteq> None \<and>
   res_name layout_full \<noteq> None \<and> chain_type layout_full \<noteq> None \<and>
   (\<exists>arr l'. to_array layout_full = Inr arr \<and> from_array arr = Inr l' \<and>
              AtomLayout_eq l' layout_full = Inr True) \<and>
   atom_element layout_A = None \<and> to_array layout_A = Inl ValueError \<and>
   np_shape stacked_five = [5, 1] \<and> from_array stacked_five = Inl ValueError"
proof -
  have a: "atom_element layout_full \<noteq> None \<and> res_name layout_full \<noteq> None \<and>
      chain_type layout_full \<noteq> None"
    by (simp add: layout_full_def)
  have b: "atom_element layout_A = None" by (simp add: layout_A_def)
  have c: "np_shape stacked_five = [5, 1]" by (simp add: stacked_five_def)
  show ?thesis
    using stack_round_trip [of layout_full layout_A stacked_five] layout_full_ok a b c
    by simp
qed

subsection \<open>Layout conversion\<close>

lemma py_slice_prefix: "py_slice xs None (Some b) = take (clamp_index b (length xs)) xs"
  by (simp add: py_slice_def slice_start_def slice_stop_def Let_def)

lemma py_slice_suffix: "py_slice xs (Some e) None = drop (clamp_index e (length xs)) xs"
  by (simp add: py_slice_def slice_start_def slice_stop_def Let_def)

lemma py_slice_middle:
  "py_slice xs (Some b) (Some e) =
     take (clamp_index e (length xs) - clamp_index b (length xs)) (drop (clamp_index b (length xs)) xs)"
  by (simp add: py_slice_def slice_start_def slice_stop_def Let_def)

lemma slices_partition:
  assumes "py_slice xs (Some b) (Some e) \<noteq> []"
  shows "py_slice xs None (Some b) @ py_slice xs (Some b) (Some e) @ py_slice xs (Some e) None = xs"
proof -
  let ?s = "clamp_index b (length xs)" and ?t = "clamp_index e (length xs)"
  have st: "?s < ?t" using assms by (simp add: py_slice_middle)
  have "take ?t xs = take ?s xs @ take (?t - ?s) (drop ?s xs)"
    using st take_add [of ?s "?t - ?s" xs] by simp
  then have "take ?s xs @ take (?t - ?s) (drop ?s xs) @ drop ?t xs = take ?t xs @ drop ?t xs"
    by simp
  then show ?thesis
    by (simp add: py_slice_prefix py_slice_suffix py_slice_middle)
qed

lemma length_batch_slice:
  assumes "py_slice xs (Some b) (Some e) \<noteq> []" and "0 \<le> b"
  shows "length (py_slice xs None (Some b)) = nat b"
proof -
  have "clamp_index b (length xs) < length xs"
    using assms(1) by (simp add: py_slice_middle)
  then show ?thesis using assms(2)
    by (simp add: py_slice_prefix clamp_index_def min_def split: if_splits)
qed

lemma index_axis_flat:
  "index_axis (length B) idxs \<lparr>tensor_shape = B @ [n] @ F, tensor_data = xs\<rparr> =
     (if list_ex (\<lambda>i. i < - int n \<or> int n \<le> i) (tensor_data idxs) then Inl IndexError
      else Inr \<lparr>tensor_shape = B @ tensor_shape idxs @ F,
                tensor_data = gather_rows (prod_list B) n (prod_list F) (tensor_data idxs) xs\<rparr>)"
  by (simp add: index_axis_def Let_def)

lemma convert_unfold:
  "convert g arr axes =
    (if normalize_axes (length (tensor_shape arr)) axes = [] then Inl IndexError
     else if normalize_axes (length (tensor_shape arr)) axes
               \<noteq> [layout_axes_begin_of arr axes .. layout_axes_end_of arr axes - 1]
          then Inl ValueError
     else if length (layout_shape_of arr axes) \<noteq> length (input_shape g) then Inl ValueError
     else if layout_shape_of arr axes = [] then Inl IndexError
     else if int (hd (layout_shape_of arr axes)) < hd (input_shape g)
             \<or> map int (tl (layout_shape_of arr axes)) \<noteq> tl (input_shape g)
          then Inl ValueError
     else case reshape arr (batch_shape_of arr axes @ prod_list (layout_shape_of arr axes)
                              # features_shape_of arr axes) of
            Inl e \<Rightarrow> Inl e
          | Inr arr_flattened \<Rightarrow>
              (case (if layout_axes_begin_of arr axes = 0
                     then index_axis 0 (gather_idxs g) arr_flattened
                     else if layout_axes_begin_of arr axes = 1
                     then index_axis 1 (gather_idxs g) arr_flattened
                     else if layout_axes_begin_of arr axes = 2
                     then index_axis 2 (gather_idxs g) arr_flattened
                     else if layout_axes_begin_of arr axes = 3
                     then index_axis 3 (gather_idxs g) arr_flattened
                     else if layout_axes_begin_of arr axes = 4
                     then index_axis 4 (gather_idxs g) arr_flattened
                     else Inl ValueError) of
                 Inl e \<Rightarrow> Inl e
               | Inr out_arr \<Rightarrow>
                   Inr (imul_mask out_arr (batch_shape_of arr axes) (gather_mask g)
                          (features_shape_of arr axes))))"
  unfolding convert_def Let_def layout_axes_begin_of_def layout_axes_end_of_def
    layout_shape_of_def batch_shape_of_def features_shape_of_def
  by simp

lemma begin_chain:
  assumes "0 \<le> b" and "b \<le> 4"
  shows "(if b = 0 then index_axis 0 i t
          else if b = 1 then index_axis 1 i t
          else if b = 2 then index_axis 2 i t
          else if b = 3 then index_axis 3 i t
          else if b = 4 then index_axis 4 i t
          else Inl ValueError) = index_axis (nat b) i t"
proof -
  have "b = 0 \<or> b = 1 \<or> b = 2 \<or> b = 3 \<or> b = 4" using assms by arith
  then show ?thesis by auto
qed

lemma index_axis_flat':
  "index_axis (length B) idxs \<lparr>tensor_shape = B @ n # F, tensor_data = xs\<rparr> =
     (if list_ex (\<lambda>i. i < - int n \<or> int n \<le> i) (tensor_data idxs) then Inl IndexError
      else Inr \<lparr>tensor_shape = B @ tensor_shape idxs @ F,
                tensor_data = gather_rows (prod_list B) n (prod_list F) (tensor_data idxs) xs\<rparr>)"
  using index_axis_flat [of B idxs n F xs] by simp

lemma convert_accepted:
  assumes "\<not> convert_raises g arr axes"
  shows "convert g arr axes =
     Inr (imul_mask
            \<lparr>tensor_shape = batch_shape_of arr axes @ tensor_shape (gather_idxs g)
                              @ features_shape_of arr axes,
             tensor_data = gather_rows (prod_list (batch_shape_of arr axes))
                             (prod_list (layout_shape_of arr axes))
                             (prod_list (features_shape_of arr axes))
                             (tensor_data (gather_idxs g)) (tensor_data arr)\<rparr>
            (batch_shape_of arr axes) (gather_mask g) (features_shape_of arr axes))"
proof -
  let ?b = "layout_axes_begin_of arr axes" and ?e = "layout_axes_end_of arr axes"
  let ?B = "batch_shape_of arr axes" and ?L = "layout_shape_of arr axes"
  let ?F = "features_shape_of arr axes"
  let ?ax = "normalize_axes (length (tensor_shape arr)) axes"
  from assms have c: "?ax \<noteq> []" "?ax = [?b .. ?e - 1]"
    "length ?L = length (input_shape g)" "?L \<noteq> []"
    "\<not> int (hd ?L) < hd (input_shape g)" "map int (tl ?L) = tl (input_shape g)"
    "0 \<le> ?b" "?b \<le> 4"
    "\<not> list_ex (\<lambda>i. i < - int (prod_list ?L) \<or> int (prod_list ?L) \<le> i) (tensor_data (gather_idxs g))"
    by (simp_all add: convert_raises_def Let_def)
  have Lne: "py_slice (tensor_shape arr) (Some ?b) (Some ?e) \<noteq> []"
    using c(4) by (simp add: layout_shape_of_def)
  have part: "?B @ ?L @ ?F = tensor_shape arr"
    using slices_partition [OF Lne]
    by (simp add: batch_shape_of_def layout_shape_of_def features_shape_of_def)
  have lenB: "length ?B = nat ?b"
    using length_batch_slice [OF Lne c(7)] by (simp add: batch_shape_of_def)
  have "prod_list (?B @ prod_list ?L # ?F) = prod_list (?B @ ?L @ ?F)"
    by simp
  then have prod: "prod_list (?B @ prod_list ?L # ?F) = prod_list (tensor_shape arr)"
    by (simp only: part)
  have rs: "reshape arr (?B @ prod_list ?L # ?F)
      = Inr \<lparr>tensor_shape = ?B @ prod_list ?L # ?F, tensor_data = tensor_data arr\<rparr>"
    using prod by (simp add: reshape_def)
  have ia: "index_axis (nat ?b) (gather_idxs g)
        \<lparr>tensor_shape = ?B @ prod_list ?L # ?F, tensor_data = tensor_data arr\<rparr>
      = Inr \<lparr>tensor_shape = ?B @ tensor_shape (gather_idxs g) @ ?F,
             tensor_data = gather_rows (prod_list ?B) (prod_list ?L) (prod_list ?F)
                             (tensor_data (gather_idxs g)) (tensor_data arr)\<rparr>"
    using index_axis_flat' [of ?B "gather_idxs g" "prod_list ?L" ?F "tensor_data arr"] c(9) lenB
    by simp
  show ?thesis
    using c(1-6) by (simp add: convert_unfold rs begin_chain [OF c(7,8)] ia)
qed

lemma convert_raised:
  assumes "convert_raises g arr axes"
  shows "isl (convert g arr axes)"
proof -
  let ?b = "layout_axes_begin_of arr axes" and ?e = "layout_axes_end_of arr axes"
  let ?B = "batch_shape_of arr axes" and ?L = "layout_shape_of arr axes"
  let ?F = "features_shape_of arr axes"
  let ?ax = "normalize_axes (length (tensor_shape arr)) axes"
  let ?oor = "list_ex (\<lambda>i. i < - int (prod_list ?L) \<or> int (prod_list ?L) \<le> i)
                (tensor_data (gather_idxs g))"
  show ?thesis
  proof (cases "?ax = [] \<or> ?ax \<noteq> [?b .. ?e - 1] \<or> length ?L \<noteq> length (input_shape g)
      \<or> ?L = [] \<or> int (hd ?L) < hd (input_shape g) \<or> map int (tl ?L) \<noteq> tl (input_shape g)")
    case True
    then show ?thesis by (auto simp: convert_unfold)
  next
    case False
    then have c: "?ax \<noteq> []" "?ax = [?b .. ?e - 1]"
      "length ?L = length (input_shape g)" "?L \<noteq> []"
      "\<not> int (hd ?L) < hd (input_shape g)" "map int (tl ?L) = tl (input_shape g)"
      by auto
    from assms False have rest: "?b < 0 \<or> 4 < ?b \<or> ?oor"
      by (auto simp: convert_raises_def Let_def)
    show ?thesis
    proof (cases "?b < 0 \<or> 4 < ?b")
      case True
      then have "(if ?b = 0 then index_axis 0 i t
          else if ?b = 1 then index_axis 1 i t
          else if ?b = 2 then index_axis 2 i t
          else if ?b = 3 then index_axis 3 i t
          else if ?b = 4 then index_axis 4 i t
          else Inl ValueError) = Inl ValueError" for i and t :: "'a ieee tensor"
        by auto
      then show ?thesis
        using c by (simp add: convert_unfold split: sum.splits)
    next
      case False
      with rest have oor: ?oor by simp
      from False have b: "0 \<le> ?b" "?b \<le> 4" by auto
      have Lne: "py_slice (tensor_shape arr) (Some ?b) (Some ?e) \<noteq> []"
        using c(4) by (simp add: layout_shape_of_def)
      have lenB: "length ?B = nat ?b"
        using length_batch_slice [OF Lne b(1)] by (simp add: batch_shape_of_def)
      have ia: "index_axis (nat ?b) (gather_idxs g)
          \<lparr>tensor_shape = ?B @ prod_list ?L # ?F, tensor_data = xs\<rparr> = Inl IndexError"
        for xs :: "'a ieee list"
        using index_axis_flat' [of ?B "gather_idxs g" "prod_list ?L" ?F xs] oor lenB by simp
      show ?thesis
        using c
        by (simp add: convert_unfold begin_chain [OF b] reshape_def ia split: sum.splits)
    qed
  qed
qed

lemma wrap_index_less: "- int n \<le> i \<Longrightarrow> i < int n \<Longrightarrow> wrap_index n i < n"
  by (auto simp: wrap_index_def)

lemma length_concat_const:
  "\<forall>x \<in> set xs. length (f x) = m \<Longrightarrow> length (concat (map f xs)) = length xs * m"
  by (induction xs) auto

lemma length_gather_rows:
  assumes len: "length xs = pb * n * pf"
    and inr: "\<not> list_ex (\<lambda>i. i < - int n \<or> int n \<le> i) idxs"
  shows "length (gather_rows pb n pf idxs xs) = pb * length idxs * pf"
proof -
  have rowlen: "length (row pf (b * n + wrap_index n i) xs) = pf"
    if "b < pb" "i \<in> set idxs" for b i
  proof -
    have "wrap_index n i < n"
      using inr that(2) by (intro wrap_index_less) (auto simp: list_ex_iff not_le not_less)
    then have "b * n + wrap_index n i + 1 \<le> Suc b * n"
      by simp
    also have "\<dots> \<le> pb * n"
      using that(1) by (intro mult_le_mono1) simp
    finally have "b * n + wrap_index n i + 1 \<le> pb * n" .
    then have "(b * n + wrap_index n i + 1) * pf \<le> pb * n * pf"
      by (rule mult_le_mono1)
    then show ?thesis using len by (intro length_row) simp
  qed
  have inner: "length (concat (map (\<lambda>i. row pf (b * n + wrap_index n i) xs) idxs)) = length idxs * pf"
    if "b < pb" for b
    using rowlen [OF that] by (intro length_concat_const) simp
  have "length (concat (map (\<lambda>b. concat (map (\<lambda>i. row pf (b * n + wrap_index n i) xs) idxs))
            [0 ..< pb])) = length [0 ..< pb] * (length idxs * pf)"
    using inner by (intro length_concat_const) simp
  then show ?thesis
    by (simp add: gather_rows_def)
qed

lemma length_broadcast_mask:
  "length (broadcast_mask B m F) = prod_list B * length m * prod_list F"
  by (simp add: broadcast_mask_def length_concat comp_def sum_list_triv sum_list_replicate)

lemma set_broadcast_mask: "set (broadcast_mask B m F) \<subseteq> set m"
  by (auto simp: broadcast_mask_def)

lemma set_gather_rows: "set (gather_rows pb n pf idxs xs) \<subseteq> set xs"
  by (auto simp: gather_rows_def row_def dest!: in_set_takeD in_set_dropD)

lemma mul_bool_False_finite: "is_finite x \<Longrightarrow> mul_bool x False = Finite 0"
  by (cases x) simp_all

lemma convert_result_ok:
  fixes arr :: "'a::semiring_1 ieee tensor"
  assumes g: "GatherInfo_ok g" and arr: "tensor_ok arr" and acc: "\<not> convert_raises g arr axes"
    and out: "convert g arr axes = Inr out"
  shows "tensor_shape out = batch_shape_of arr axes @ GatherInfo_shape g @ features_shape_of arr axes"
    and "tensor_ok out"
    and "list_all Not (tensor_data (gather_mask g)) \<Longrightarrow> list_all is_finite (tensor_data arr) \<Longrightarrow>
         list_all (\<lambda>x. x = Finite 0) (tensor_data out)"
proof -
  let ?B = "batch_shape_of arr axes" and ?L = "layout_shape_of arr axes"
  let ?F = "features_shape_of arr axes"
  let ?idxs = "tensor_data (gather_idxs g)"
  let ?rows = "gather_rows (prod_list ?B) (prod_list ?L) (prod_list ?F) ?idxs (tensor_data arr)"
  let ?bm = "broadcast_mask ?B (tensor_data (gather_mask g)) ?F"
  have oe: "out = imul_mask \<lparr>tensor_shape = ?B @ tensor_shape (gather_idxs g) @ ?F,
      tensor_data = ?rows\<rparr> ?B (gather_mask g) ?F"
    using convert_accepted [OF acc] out by simp
  show sh: "tensor_shape out = ?B @ GatherInfo_shape g @ ?F"
    by (simp add: oe imul_mask_def GatherInfo_shape_def)
  from acc have Lne: "?L \<noteq> []"
    and inr: "\<not> list_ex (\<lambda>i. i < - int (prod_list ?L) \<or> int (prod_list ?L) \<le> i) ?idxs"
    by (simp_all add: convert_raises_def Let_def)
  have "py_slice (tensor_shape arr) (Some (layout_axes_begin_of arr axes))
      (Some (layout_axes_end_of arr axes)) \<noteq> []"
    using Lne by (simp add: layout_shape_of_def)
  from slices_partition [OF this] have part: "?B @ ?L @ ?F = tensor_shape arr"
    by (simp add: batch_shape_of_def layout_shape_of_def features_shape_of_def)
  have "prod_list (tensor_shape arr) = prod_list (?B @ ?L @ ?F)"
    by (simp only: part)
  then have len: "length (tensor_data arr) = prod_list ?B * prod_list ?L * prod_list ?F"
    using arr by (simp add: tensor_ok_def)
  have lr: "length ?rows = prod_list ?B * length ?idxs * prod_list ?F"
    using len inr by (rule length_gather_rows)
  have li: "length ?idxs = prod_list (tensor_shape (gather_idxs g))"
    and lm: "length (tensor_data (gather_mask g)) = prod_list (tensor_shape (gather_idxs g))"
    using g by (auto simp: GatherInfo_ok_def GatherInfo_post_init_def tensor_ok_def split: if_splits)
  have lb: "length ?bm = length ?rows"
    by (simp add: length_broadcast_mask lr li lm)
  show "tensor_ok out"
    by (simp add: oe imul_mask_def tensor_ok_def lb lr li)
  assume "list_all Not (tensor_data (gather_mask g))" and fin: "list_all is_finite (tensor_data arr)"
  then have nomask: "\<forall>m \<in> set ?bm. \<not> m"
    using set_broadcast_mask [of ?B "tensor_data (gather_mask g)" ?F]
    by (auto simp: list_all_iff)
  have finrows: "\<forall>x \<in> set ?rows. is_finite x"
    using fin set_gather_rows [of "prod_list ?B" "prod_list ?L" "prod_list ?F" ?idxs "tensor_data arr"]
    by (auto simp: list_all_iff)
  have "mul_bool x m = Finite 0" if "(x, m) \<in> set (zip ?rows ?bm)" for x m
  proof -
    have "x \<in> set ?rows" and "m \<in> set ?bm"
      using that by (auto dest: set_zip_leftD set_zip_rightD)
    then have "is_finite x" and "\<not> m" using finrows nomask by auto
    then show ?thesis by (simp add: mul_bool_False_finite)
  qed
  then show "list_all (\<lambda>x. x = Finite 0) (tensor_data out)"
    by (auto simp: oe imul_mask_def list_all_iff)
qed

lemma gather_masked_ok: "GatherInfo_ok gather_masked"
  by (simp add: gather_masked_def GatherInfo_ok_def GatherInfo_post_init_def tensor_ok_def)

text \<open>
  Claim C5, as stated, fails: the mask is applied by multiplication, and an infinity
  multiplied by the mask value 0 is NaN. For the gather map whose mask is false everywhere
  and a floating-point array that holds an infinity, \<open>convert\<close> returns NaN at the position
  that gathers it.
\<close>

theorem convert_masked_infinity_counterexample:
  "GatherInfo_ok gather_masked \<and> tensor_ok arr_inf \<and>
   \<not> convert_raises gather_masked arr_inf [0] \<and>
   list_all Not (tensor_data (gather_mask gather_masked)) \<and>
   convert gather_masked arr_inf [0]
     = Inr \<lparr>tensor_shape = [2], tensor_data = [NaN, Finite 0]\<rparr>"
proof -
  have "tensor_ok arr_inf" by (simp add: arr_inf_def tensor_ok_def)
  moreover have "\<not> convert_raises gather_masked arr_inf [0]" by code_simp
  moreover have "list_all Not (tensor_data (gather_mask gather_masked))"
    by (simp add: gather_masked_def)
  moreover have "convert gather_masked arr_inf [0]
      = Inr \<lparr>tensor_shape = [2], tensor_data = [NaN, Finite 0]\<rparr>" by code_simp
  ultimately show ?thesis using gather_masked_ok by simp
qed

text \<open>
  Claim C5, amended: for a gather map whose mask is false everywhere and an array of finite
  numbers that \<open>convert\<close> accepts (compatible layout axes, gather indices in range),
  \<open>convert\<close> returns an array of the shape batch axes, map shape, feature axes, which is zero
  at every position, whatever finite values the array holds.
\<close>

theorem convert_masked_out:
  fixes arr :: "'a::semiring_1 ieee tensor"
  assumes "GatherInfo_ok g" and "tensor_ok arr" and "\<not> convert_raises g arr axes"
    and "list_all Not (tensor_data (gather_mask g))"
    and "list_all is_finite (tensor_data arr)"
  shows "\<exists>out. convert g arr axes = Inr out \<and>
           tensor_shape out = batch_shape_of arr axes @ GatherInfo_shape g
                                @ features_shape_of arr axes \<and>
           tensor_ok out \<and> list_all (\<lambda>x. x = Finite 0) (tensor_data out)"
proof -
  obtain out where out: "convert g arr axes = Inr out"
    using convert_accepted [OF assms(3)] by blast
  show ?thesis
    using out convert_result_ok [OF assms(1,2,3) out] assms(4,5) by blast
qed

theorem convert_masked_out_witness:
  "GatherInfo_ok gather_masked \<and> tensor_ok arr_three \<and>
   \<not> convert_raises gather_masked arr_three [0] \<and>
   list_all Not (tensor_data (gather_mask gather_masked)) \<and>
   list_all is_finite (tensor_data arr_three) \<and>
   (\<exists>out. convert gather_masked arr_three [0] = Inr out \<and>
      tensor_shape out = batch_shape_of arr_three [0] @ GatherInfo_shape gather_masked
                           @ features_shape_of arr_three [0] \<and>
      tensor_ok out \<and> list_all (\<lambda>x. x = Finite 0) (tensor_data out))"
proof -
  have a: "tensor_ok arr_three" by (simp add: arr_three_def tensor_ok_def)
  have b: "\<not> convert_raises gather_masked arr_three [0]" by code_simp
  have c: "list_all Not (tensor_data (gather_mask gather_masked))"
    by (simp add: gather_masked_def)
  have d: "list_all is_finite (tensor_data arr_three)"
    by (simp add: arr_three_def)
  show ?thesis
    using convert_masked_out [OF gather_masked_ok a b c d] gather_masked_ok a b c d by blast
qed

lemma convert_raises_exactly:
  "isl (convert g arr layout_axes) \<longleftrightarrow> convert_raises g arr layout_axes"
proof
  assume raised: "isl (convert g arr layout_axes)"
  show "convert_raises g arr layout_axes"
  proof (rule ccontr)
    assume "\<not> convert_raises g arr layout_axes"
    from convert_accepted [OF this] have "\<not> isl (convert g arr layout_axes)"
      by simp
    with raised show False by simp
  qed
next
  assume "convert_raises g arr layout_axes"
  then show "isl (convert g arr layout_axes)"
    by (rule convert_raised)
qed

lemma length_py_slice_in_range:
  assumes "0 \<le> b" and "b \<le> e" and "e \<le> int (length xs)"
  shows "length (py_slice xs (Some b) (Some e)) = nat (e - b)"
  using assms by (simp add: py_slice_middle clamp_index_def min_def) linarith

lemma in_range_layout_shape:
  assumes rng: "layout_axes_in_range arr axes"
    and contig: "normalize_axes (length (tensor_shape arr)) axes
       = [layout_axes_begin_of arr axes .. layout_axes_end_of arr axes - 1]"
  shows "0 \<le> layout_axes_begin_of arr axes"
    and "length (layout_shape_of arr axes)
           = length (normalize_axes (length (tensor_shape arr)) axes)"
    and "layout_shape_of arr axes \<noteq> []"
    and "normalize_axes (length (tensor_shape arr)) axes \<noteq> []"
proof -
  let ?ax = "normalize_axes (length (tensor_shape arr)) axes"
  let ?b = "layout_axes_begin_of arr axes" and ?e = "layout_axes_end_of arr axes"
  show ne: "?ax \<noteq> []"
    using rng by (simp add: layout_axes_in_range_def normalize_axes_def)
  have all: "\<forall>x \<in> set ?ax. 0 \<le> x \<and> x < int (length (tensor_shape arr))"
    using rng by (simp add: layout_axes_in_range_def list_all_iff)
  have be: "?b \<le> ?e - 1"
    using ne contig by (metis upto_Nil not_le_imp_less)
  then have "?b \<in> set [?b .. ?e - 1]" and "?e - 1 \<in> set [?b .. ?e - 1]"
    by simp_all
  then have b0: "0 \<le> ?b" and e1: "?e - 1 < int (length (tensor_shape arr))"
    using all contig by auto
  show "0 \<le> ?b" by (rule b0)
  have "length (layout_shape_of arr axes) = nat (?e - ?b)"
    unfolding layout_shape_of_def using b0 be e1 by (intro length_py_slice_in_range) simp_all
  moreover have "length ?ax = nat (?e - ?b)"
    by (subst contig) simp
  ultimately show len: "length (layout_shape_of arr axes) = length ?ax" by simp
  then show "layout_shape_of arr axes \<noteq> []" using ne by auto
qed

lemma convert_raises_in_range_eq:
  assumes rng: "layout_axes_in_range arr axes"
  shows "convert_raises g arr axes
     \<longleftrightarrow> convert_raises_as_claimed g arr axes \<or> gather_index_out_of_range g arr axes"
proof (cases "normalize_axes (length (tensor_shape arr)) axes
       = [layout_axes_begin_of arr axes .. layout_axes_end_of arr axes - 1]")
  case False
  then show ?thesis
    by (simp add: convert_raises_def convert_raises_as_claimed_def Let_def)
next
  case True
  note f = in_range_layout_shape [OF rng True]
  show ?thesis
    using True f
    by (auto simp: convert_raises_def convert_raises_as_claimed_def
        gather_index_out_of_range_def Let_def)
qed

text \<open>
  Claim C6, as stated, fails: on a one-dimensional array of two elements and a gather map
  with \<open>input_shape = [2]\<close> whose only index is 5, none of the listed conditions holds, and
  \<open>convert\<close> raises \<open>IndexError\<close>.
\<close>

theorem convert_index_out_of_range_counterexample:
  "GatherInfo_ok gather_out_of_range \<and> tensor_ok arr_two \<and>
   layout_axes_in_range arr_two [0] \<and>
   \<not> convert_raises_as_claimed gather_out_of_range arr_two [0] \<and>
   convert gather_out_of_range arr_two [0] = Inl IndexError"
proof -
  have "GatherInfo_ok gather_out_of_range"
    by (simp add: gather_out_of_range_def GatherInfo_ok_def GatherInfo_post_init_def tensor_ok_def)
  moreover have "tensor_ok arr_two" by (simp add: arr_two_def tensor_ok_def)
  moreover have "layout_axes_in_range arr_two [0]" by code_simp
  moreover have "\<not> convert_raises_as_claimed gather_out_of_range arr_two [0]" by code_simp
  moreover have "convert gather_out_of_range arr_two [0] = Inl IndexError" by code_simp
  ultimately show ?thesis by simp
qed

text \<open>
  Claim C6, amended: for layout axes that are axes of the array, \<open>convert\<close> raises an error
  if and only if one of the conditions of the claim holds (the normalized layout axes are
  not a contiguous run; their number differs from the rank of \<open>input_shape\<close>; the first
  layout axis of the array is strictly smaller than \<open>input_shape[0]\<close>; a later layout axis
  differs from \<open>input_shape\<close>; more than 4 batch axes come before the layout axes) or a
  gather index lies outside the flattened layout axes. Otherwise the call returns.
\<close>

theorem convert_raises_iff:
  assumes "layout_axes_in_range arr layout_axes"
  shows "isl (convert g arr layout_axes)
     \<longleftrightarrow> convert_raises_as_claimed g arr layout_axes
           \<or> gather_index_out_of_range g arr layout_axes"
  using convert_raises_exactly [of g arr layout_axes] convert_raises_in_range_eq [OF assms, of g]
  by simp

theorem convert_raises_iff_witness:
  "layout_axes_in_range arr_two [0] \<and> layout_axes_in_range arr_two [0, 0] \<and>
   isl (convert gather_out_of_range arr_two [0]) \<and>
   gather_index_out_of_range gather_out_of_range arr_two [0] \<and>
   isl (convert gather_swap arr_two [0, 0]) \<and>
   convert_raises_as_claimed gather_swap arr_two [0, 0] \<and>
   \<not> isl (convert gather_swap arr_two [0]) \<and>
   \<not> convert_raises_as_claimed gather_swap arr_two [0] \<and>
   \<not> gather_index_out_of_range gather_swap arr_two [0]"
proof -
  have r: "layout_axes_in_range arr_two [0]" by code_simp
  have r2: "layout_axes_in_range arr_two [0, 0]" by code_simp
  have a: "gather_index_out_of_range gather_out_of_range arr_two [0]" by code_simp
  have b: "\<not> convert_raises_as_claimed gather_swap arr_two [0]" by code_simp
  have c: "\<not> gather_index_out_of_range gather_swap arr_two [0]" by code_simp
  have d: "convert_raises_as_claimed gather_swap arr_two [0, 0]" by code_simp
  show ?thesis
    using convert_raises_iff [OF r, of gather_out_of_range]
      convert_raises_iff [OF r, of gather_swap]
      convert_raises_iff [OF r2, of gather_swap] r r2 a b c d by simp
qed

lemma row_of_row:
  assumes "i < n"
  shows "row pf (b * n + i) xs = row pf i (row (n * pf) b xs)"
proof -
  have le: "pf + i * pf \<le> n * pf"
    using assms by (metis Suc_leI mult_Suc mult_le_mono1)
  have "row pf i (row (n * pf) b xs) = take pf (drop (i * pf) (take (n * pf) (drop (b * (n * pf)) xs)))"
    by (simp add: row_def)
  also have "\<dots> = take pf (take (n * pf - i * pf) (drop (i * pf + b * (n * pf)) xs))"
    by (simp add: drop_take)
  also have "\<dots> = take pf (drop (i * pf + b * (n * pf)) xs)"
    using le by (simp add: min_def)
  also have "\<dots> = row pf (b * n + i) xs"
    by (simp add: row_def algebra_simps)
  finally show ?thesis by simp
qed

lemma gather_rows_identity:
  assumes len: "length xs = pb * n * pf"
  shows "gather_rows pb n pf (map int [0 ..< n]) xs = xs"
proof -
  have inner: "concat (map (\<lambda>i. row pf (b * n + wrap_index n i) xs) (map int [0 ..< n]))
      = row (n * pf) b xs" if "b < pb" for b
  proof -
    have "(b + 1) * (n * pf) \<le> pb * (n * pf)"
      using that by (intro mult_le_mono1) simp
    then have lr: "length (row (n * pf) b xs) = n * pf"
      using len by (intro length_row) (simp add: mult.assoc)
    have "concat (map (\<lambda>i. row pf (b * n + wrap_index n i) xs) (map int [0 ..< n]))
        = concat (map (\<lambda>i. row pf i (row (n * pf) b xs)) [0 ..< n])"
      unfolding map_map comp_def
      by (rule arg_cong [where f = concat], rule map_cong)
        (simp_all add: wrap_index_def row_of_row)
    also have "\<dots> = row (n * pf) b xs"
      using lr by (rule concat_rows)
    finally show ?thesis .
  qed
  have "gather_rows pb n pf (map int [0 ..< n]) xs = concat (map (\<lambda>b. row (n * pf) b xs) [0 ..< pb])"
    unfolding gather_rows_def
    by (rule arg_cong [where f = concat], rule map_cong [OF refl])
      (simp only: set_upt atLeastLessThan_iff inner)
  also have "\<dots> = xs"
    using len by (intro concat_rows) (simp add: mult.assoc)
  finally show ?thesis .
qed

lemma mul_bool_True: "mul_bool x True = x"
  by (cases x) simp_all

lemma imul_all_true:
  fixes xs :: "'a::semiring_1 ieee list"
  assumes "\<forall>m \<in> set ms. m" and "length xs \<le> length ms"
  shows "map (\<lambda>(x, m). mul_bool x m) (zip xs ms) = xs"
  using assms
proof (induction xs arbitrary: ms)
  case Nil
  then show ?case by simp
next
  case (Cons x xs)
  then show ?case by (cases ms) (auto simp: mul_bool_True)
qed

lemma convert_identity_exact:
  fixes arr :: "'a::semiring_1 ieee tensor"
  assumes arr: "tensor_ok arr"
    and acc: "\<not> convert_raises (identity_gather_info shp) arr axes"
    and same: "map int (layout_shape_of arr axes) = shp"
  shows "convert (identity_gather_info shp) arr axes = Inr arr"
proof -
  let ?g = "identity_gather_info shp"
  let ?B = "batch_shape_of arr axes" and ?L = "layout_shape_of arr axes"
  let ?F = "features_shape_of arr axes"
  have L: "map nat shp = ?L"
    using same [symmetric] by (simp add: comp_def)
  from acc have Lne: "?L \<noteq> []"
    by (simp add: convert_raises_def Let_def)
  have "py_slice (tensor_shape arr) (Some (layout_axes_begin_of arr axes))
      (Some (layout_axes_end_of arr axes)) \<noteq> []"
    using Lne by (simp add: layout_shape_of_def)
  from slices_partition [OF this] have part: "?B @ ?L @ ?F = tensor_shape arr"
    by (simp add: batch_shape_of_def layout_shape_of_def features_shape_of_def)
  have "prod_list (tensor_shape arr) = prod_list (?B @ ?L @ ?F)"
    by (simp only: part)
  then have len: "length (tensor_data arr) = prod_list ?B * prod_list ?L * prod_list ?F"
    using arr by (simp add: tensor_ok_def)
  have rows: "gather_rows (prod_list ?B) (prod_list ?L) (prod_list ?F)
      (map int [0 ..< prod_list ?L]) (tensor_data arr) = tensor_data arr"
    using len by (rule gather_rows_identity)
  let ?bm = "broadcast_mask ?B (replicate (prod_list ?L) True) ?F"
  have bm: "\<forall>m \<in> set ?bm. m"
    using set_broadcast_mask [of ?B "replicate (prod_list ?L) True" ?F] by auto
  have lbm: "length (tensor_data arr) \<le> length ?bm"
    by (simp add: length_broadcast_mask len)
  have mul: "map (\<lambda>(x, m). mul_bool x m) (zip (tensor_data arr) ?bm) = tensor_data arr"
    using bm lbm by (rule imul_all_true)
  have "convert ?g arr axes =
      Inr \<lparr>tensor_shape = ?B @ ?L @ ?F, tensor_data = tensor_data arr\<rparr>"
    unfolding convert_accepted [OF acc]
    by (simp add: identity_gather_info_def L rows imul_mask_def mul)
  then show ?thesis
    by (simp add: part)
qed

text \<open>
  Claim C4, as stated, fails: an array whose first layout axis is longer than
  \<open>input_shape[0]\<close> is compatible with the map (\<open>convert\<close> accepts a first axis equal or
  greater), and the identity map over two positions returns the first two of its three
  elements, an array of another shape.
\<close>

theorem convert_identity_padded_counterexample:
  "GatherInfo_ok (identity_gather_info [2]) \<and> tensor_ok arr_three \<and>
   \<not> convert_raises (identity_gather_info [2]) arr_three [0] \<and>
   convert (identity_gather_info [2]) arr_three [0]
     = Inr \<lparr>tensor_shape = [2], tensor_data = [Finite 5, Finite 6]\<rparr> \<and>
   convert (identity_gather_info [2]) arr_three [0] \<noteq> Inr arr_three"
proof -
  have "GatherInfo_ok (identity_gather_info [2])"
    by (simp add: identity_gather_info_def GatherInfo_ok_def GatherInfo_post_init_def tensor_ok_def)
  moreover have "tensor_ok arr_three" by (simp add: arr_three_def tensor_ok_def)
  moreover have "\<not> convert_raises (identity_gather_info [2]) arr_three [0]" by code_simp
  moreover have e: "convert (identity_gather_info [2]) arr_three [0]
      = Inr \<lparr>tensor_shape = [2], tensor_data = [Finite 5, Finite 6]\<rparr>" by code_simp
  moreover have "convert (identity_gather_info [2]) arr_three [0] \<noteq> Inr arr_three"
    unfolding e by (simp add: arr_three_def)
  ultimately show ?thesis by simp
qed

text \<open>
  Claim C4, amended: for the identity map over \<open>input_shape\<close> and every array that
  \<open>convert\<close> accepts and whose layout axes have exactly the sizes of \<open>input_shape\<close>,
  \<open>convert\<close> returns the array itself.
\<close>

theorem convert_identity:
  fixes arr :: "'a::semiring_1 ieee tensor"
  assumes "tensor_ok arr"
    and "\<not> convert_raises (identity_gather_info shp) arr layout_axes"
    and "map int (layout_shape_of arr layout_axes) = shp"
  shows "convert (identity_gather_info shp) arr layout_axes = Inr arr"
  using assms by (rule convert_identity_exact)

theorem convert_identity_witness:
  "tensor_ok arr_two \<and> \<not> convert_raises (identity_gather_info [2]) arr_two [0] \<and>
   map int (layout_shape_of arr_two [0]) = [2] \<and>
   convert (identity_gather_info [2]) arr_two [0] = Inr arr_two"
proof -
  have a: "tensor_ok arr_two" by (simp add: arr_two_def tensor_ok_def)
  have b: "\<not> convert_raises (identity_gather_info [2]) arr_two [0]" by code_simp
  have c: "map int (layout_shape_of arr_two [0]) = [2]" by code_simp
  show ?thesis
    using convert_identity [OF a b c] a b c by simp
qed

subsection \<open>Indexing a gather map\<close>

lemma GatherInfo_getitem_cases:
  assumes "tensor_shape (gather_mask g) = tensor_shape (gather_idxs g)"
  shows "GatherInfo_getitem key g =
     (case index_shape key (tensor_shape (gather_idxs g)) of
        Inl e \<Rightarrow> Inl e
      | Inr s \<Rightarrow>
          Inr \<lparr>gather_idxs = \<lparr>tensor_shape = s,
                  tensor_data = index_data key (tensor_shape (gather_idxs g))
                                  (tensor_data (gather_idxs g))\<rparr>,
               gather_mask = \<lparr>tensor_shape = s,
                  tensor_data = index_data key (tensor_shape (gather_idxs g))
                                  (tensor_data (gather_mask g))\<rparr>,
               input_shape = input_shape g\<rparr>)"
  using assms
  by (simp add: GatherInfo_getitem_def tensor_getitem_def GatherInfo_post_init_def
      split: sum.splits)

lemma gather_swap_post_init: "GatherInfo_post_init gather_swap = Inr gather_swap"
  by (simp add: gather_swap_def GatherInfo_post_init_def)

text \<open>
  Claim C10: \<open>g[key]\<close> keeps \<open>input_shape\<close>, indexes \<open>gather_idxs\<close> and \<open>gather_mask\<close> with the
  same key, and its result has two tensors of one shape again, so that \<open>__post_init__\<close>
  accepts it: \<open>g[key]\<close> raises only where indexing \<open>gather_idxs\<close> with the key raises.
\<close>

theorem GatherInfo_getitem_frame:
  assumes "GatherInfo_post_init g = Inr g"
  shows "(\<forall>g'. GatherInfo_getitem key g = Inr g' \<longrightarrow>
            input_shape g' = input_shape g \<and>
            tensor_getitem key (gather_idxs g) = Inr (gather_idxs g') \<and>
            tensor_getitem key (gather_mask g) = Inr (gather_mask g') \<and>
            tensor_shape (gather_idxs g') = tensor_shape (gather_mask g') \<and>
            GatherInfo_post_init g' = Inr g') \<and>
         (isl (GatherInfo_getitem key g) \<longleftrightarrow> isl (tensor_getitem key (gather_idxs g)))"
proof -
  have sh: "tensor_shape (gather_mask g) = tensor_shape (gather_idxs g)"
    using assms by (simp add: GatherInfo_post_init_def split: if_splits)
  show ?thesis
    unfolding GatherInfo_getitem_cases [OF sh]
    by (auto simp: tensor_getitem_def sh GatherInfo_post_init_def split: sum.splits)
qed

theorem GatherInfo_getitem_frame_witness:
  "GatherInfo_post_init gather_swap = Inr gather_swap \<and>
   (\<exists>g'. GatherInfo_getitem [Slice_idx (Some 1) None] gather_swap = Inr g' \<and>
      input_shape g' = input_shape gather_swap \<and>
      gather_idxs g' = \<lparr>tensor_shape = [1], tensor_data = [0]\<rparr> \<and>
      gather_mask g' = \<lparr>tensor_shape = [1], tensor_data = [True]\<rparr> \<and>
      tensor_shape (gather_idxs g') = tensor_shape (gather_mask g')) \<and>
   isl (tensor_getitem [Int_idx 2] (gather_idxs gather_swap)) \<and>
   isl (GatherInfo_getitem [Int_idx 2] gather_swap)"
proof -
  have a: "GatherInfo_getitem [Slice_idx (Some 1) None] gather_swap =
      Inr \<lparr>gather_idxs = \<lparr>tensor_shape = [1], tensor_data = [0]\<rparr>,
           gather_mask = \<lparr>tensor_shape = [1], tensor_data = [True]\<rparr>,
           input_shape = [2]\<rparr>"
    by code_simp
  have b: "isl (tensor_getitem [Int_idx 2] (gather_idxs gather_swap))"
    by code_simp
  have c: "input_shape gather_swap = [2]" by (simp add: gather_swap_def)
  show ?thesis
    using GatherInfo_getitem_frame [OF gather_swap_post_init, of "[Slice_idx (Some 1) None]"]
      GatherInfo_getitem_frame [OF gather_swap_post_init, of "[Int_idx 2]"]
      gather_swap_post_init a b c
    by simp
qed

subsection \<open>Attention\<close>

text \<open>
  Claim C2 on the code: a module constructed with \<open>use_single_cond\<close> true has no
  \<open>layer_norm\<close>, and its \<open>forward\<close> raises \<open>AttributeError\<close> on every input instead of working
  on the input as given; a module constructed with \<open>use_single_cond\<close> false applies its
  layer normalization first. The number of heads is \<open>Suc n\<close>, any positive number.
\<close>

theorem AttentionPairBias_conditioning_raises:
  "(\<exists>m. AttentionPairBias_init layers c (Suc n) True = Inr m \<and>
        AttentionPairBias_forward ops m x msk pair_logits = Inl AttributeError) \<and>
   (\<exists>m. AttentionPairBias_init layers c (Suc n) False = Inr m \<and>
        AttentionPairBias_forward ops m x msk pair_logits
          = Inr (attend ops m (new_layer_norm layers x) (mask_bias ops msk x) pair_logits))"
  by (simp add: AttentionPairBias_init_def AttentionPairBias_forward_def)

lemma sum_list_exp_nonneg: "0 \<le> sum_list (map exp (xs :: real list))"
  by (rule sum_list_nonneg) auto

lemma sum_list_exp_pos:
  assumes "xs \<noteq> []"
  shows "0 < sum_list (map exp (xs :: real list))"
proof (cases xs)
  case Nil
  with assms show ?thesis by simp
next
  case (Cons a ys)
  have "0 < exp a + sum_list (map exp ys)"
    using exp_gt_zero [of a] sum_list_exp_nonneg [of ys] by linarith
  with Cons show ?thesis by simp
qed

lemma sum_list_softmax:
  assumes "xs \<noteq> []"
  shows "sum_list (softmax xs) = 1"
proof -
  let ?S = "sum_list (map exp xs)"
  have pos: "0 < ?S" using assms by (rule sum_list_exp_pos)
  have "sum_list (map (\<lambda>x. exp x / c) ys) = sum_list (map exp ys) / c" for c :: real and ys
    by (induction ys) (simp_all add: add_divide_distrib)
  then have "sum_list (softmax xs) = ?S / ?S"
    by (simp add: softmax_def)
  then show ?thesis using pos by simp
qed

lemma exp_le_sum_list:
  "j < length xs \<Longrightarrow> exp (xs ! j) \<le> sum_list (map exp (xs :: real list))"
proof (induction xs arbitrary: j)
  case Nil
  then show ?case by simp
next
  case (Cons a ys)
  show ?case
  proof (cases j)
    case 0
    then show ?thesis using sum_list_exp_nonneg [of ys] by simp
  next
    case (Suc i)
    then have "exp (ys ! i) \<le> sum_list (map exp ys)"
      using Cons.prems by (intro Cons.IH) simp
    then show ?thesis using Suc exp_gt_zero [of a] by (simp add: add_pos_nonneg less_imp_le add_increasing)
  qed
qed

lemma exp_minus_20: "exp (- 20 :: real) < 1 / 1000000"
proof -
  have "(2::real) \<le> exp 1"
    using exp_ge_add_one_self [of "1::real"] by simp
  then have "(2::real) ^ 20 \<le> exp 1 ^ 20"
    by (intro power_mono) simp_all
  also have "exp (1::real) ^ 20 = exp 20"
    using exp_of_nat_mult [of 20 "1::real"] by simp
  finally have "(1000000::real) < exp 20" by simp
  then have "1 / exp (20::real) < 1 / 1000000"
    by (intro divide_strict_left_mono) simp_all
  then show ?thesis by (simp add: exp_minus inverse_eq_divide)
qed

lemma softmax_small:
  assumes j: "j < length xs" and j0: "j0 < length xs"
    and gap: "xs ! j + 20 \<le> xs ! j0"
  shows "0 < softmax xs ! j" and "softmax xs ! j < 1 / 1000000"
proof -
  let ?S = "sum_list (map exp xs)"
  have S0: "exp (xs ! j0) \<le> ?S" using j0 by (rule exp_le_sum_list)
  have pos: "0 < ?S" using S0 exp_gt_zero [of "xs ! j0"] by linarith
  have w: "softmax xs ! j = exp (xs ! j) / ?S"
    using j by (simp add: softmax_def)
  show "0 < softmax xs ! j" using pos by (simp add: w)
  have "exp (xs ! j) / ?S \<le> exp (xs ! j) / exp (xs ! j0)"
    using S0 pos by (intro divide_left_mono) simp_all
  also have "\<dots> = exp (xs ! j - xs ! j0)" by (simp add: exp_diff)
  also have "\<dots> \<le> exp (- 20)" using gap by simp
  also have "\<dots> < 1 / 1000000" by (rule exp_minus_20)
  finally show "softmax xs ! j < 1 / 1000000" by (simp add: w)
qed

lemma nth_masked_fill:
  assumes "i < length logits" and "i < length m"
  shows "masked_fill logits (map (map Not) m) v ! i
     = map (\<lambda>(x, valid). if valid then x else v) (zip (logits ! i) (m ! i))"
  using assms
  by (simp add: masked_fill_def zip_map2 split_def comp_def)

lemma sum_list_select_split:
  fixes xs :: "real list"
  shows "length m = length xs \<Longrightarrow>
         sum_list xs = sum_list (select m xs) + sum_list (select (map Not m) xs)"
proof (induction xs arbitrary: m)
  case Nil
  then show ?case by (simp add: select_def)
next
  case (Cons x xs)
  then obtain v m' where m: "m = v # m'" by (cases m) auto
  have "sum_list xs = sum_list (select m' xs) + sum_list (select (map Not m') xs)"
    using Cons.prems m by (intro Cons.IH) simp
  then show ?case by (simp add: m select_def)
qed

lemma length_select_masked:
  "length m = length xs \<Longrightarrow> length (select (map Not m) xs) = length (filter Not m)"
proof (induction xs arbitrary: m)
  case Nil
  then show ?case by (simp add: select_def)
next
  case (Cons x xs)
  then obtain v m' where m: "m = v # m'" by (cases m) auto
  have "length (select (map Not m') xs) = length (filter Not m')"
    using Cons.prems m by (intro Cons.IH) simp
  then show ?case by (simp add: m select_def)
qed

lemma set_select_masked:
  assumes "x \<in> set (select (map Not m) xs)"
  shows "\<exists>j < length xs. j < length m \<and> \<not> m ! j \<and> x = xs ! j"
proof -
  from assms have "(x, False) \<in> set (zip xs m)"
    by (auto simp: select_def zip_map2)
  then show ?thesis
    by (auto simp: in_set_zip)
qed

lemma sum_list_le_length_times:
  fixes xs :: "real list"
  shows "\<forall>x \<in> set xs. x \<le> c \<Longrightarrow> sum_list xs \<le> real (length xs) * c"
  by (induction xs) (auto simp: algebra_simps)

lemma masked_weights:
  assumes lg: "attention_logits q k bias = Inr logits"
    and i: "i < length logits" "i < length m"
    and len: "length (m ! i) = length (logits ! i)"
  shows "\<exists>w. attention_weights q k (Some m) bias = Inr w \<and>
           w ! i = softmax (map (\<lambda>(x, valid). if valid then x else - 1000000000)
                              (zip (logits ! i) (m ! i))) \<and>
           (\<forall>j0 < length (logits ! i).
               m ! i ! j0 \<and> - 1000000000 + 20 \<le> logits ! i ! j0 \<longrightarrow>
               sum_list (w ! i) = 1 \<and>
               (\<forall>j < length (logits ! i). \<not> m ! i ! j \<longrightarrow>
                   0 < w ! i ! j \<and> w ! i ! j < 1 / 1000000) \<and>
               1 - real (length (filter Not (m ! i))) / 1000000
                 \<le> sum_list (select (m ! i) (w ! i)))"
proof -
  let ?filled = "map (\<lambda>(x, valid). if valid then x else - 1000000000) (zip (logits ! i) (m ! i))"
  let ?w = "map softmax (masked_fill logits (map (map Not) m) (- 1000000000))"
  have aw: "attention_weights q k (Some m) bias = Inr ?w"
    by (simp add: attention_weights_def lg)
  have wi: "?w ! i = softmax ?filled"
    using i by (simp add: masked_fill_def nth_masked_fill [symmetric])
  have lf: "length ?filled = length (logits ! i)" using len by simp
  have lw: "length (softmax ?filled) = length (m ! i)"
    using len by (simp add: softmax_def)
  have main: "sum_list (softmax ?filled) = 1 \<and>
      (\<forall>j < length (logits ! i). \<not> m ! i ! j \<longrightarrow>
          0 < softmax ?filled ! j \<and> softmax ?filled ! j < 1 / 1000000) \<and>
      1 - real (length (filter Not (m ! i))) / 1000000
        \<le> sum_list (select (m ! i) (softmax ?filled))"
    if j0: "j0 < length (logits ! i)" "m ! i ! j0" "- 1000000000 + 20 \<le> logits ! i ! j0" for j0
  proof -
    have ne: "?filled \<noteq> []" using j0(1) lf by auto
    have f0: "?filled ! j0 = logits ! i ! j0" using j0 len by simp
    have small: "0 < softmax ?filled ! j \<and> softmax ?filled ! j < 1 / 1000000"
      if "j < length (logits ! i)" "\<not> m ! i ! j" for j
    proof -
      have fj: "?filled ! j = - 1000000000" using that len by simp
      have "?filled ! j + 20 \<le> ?filled ! j0" using fj f0 j0(3) by simp
      then show ?thesis
        using softmax_small [of j ?filled j0] that(1) j0(1) lf by simp
    qed
    have one: "sum_list (softmax ?filled) = 1" using ne by (rule sum_list_softmax)
    have "\<forall>x \<in> set (select (map Not (m ! i)) (softmax ?filled)). x \<le> 1 / 1000000"
    proof
      fix x assume "x \<in> set (select (map Not (m ! i)) (softmax ?filled))"
      from set_select_masked [OF this] obtain j where
        "j < length (m ! i)" "\<not> m ! i ! j" "x = softmax ?filled ! j" by auto
      then show "x \<le> 1 / 1000000" using small [of j] len by simp
    qed
    then have "sum_list (select (map Not (m ! i)) (softmax ?filled))
        \<le> real (length (select (map Not (m ! i)) (softmax ?filled))) * (1 / 1000000)"
      by (rule sum_list_le_length_times)
    also have "\<dots> = real (length (filter Not (m ! i))) / 1000000"
      using lw by (simp add: length_select_masked)
    finally have masked: "sum_list (select (map Not (m ! i)) (softmax ?filled))
        \<le> real (length (filter Not (m ! i))) / 1000000" .
    have "sum_list (softmax ?filled) = sum_list (select (m ! i) (softmax ?filled))
        + sum_list (select (map Not (m ! i)) (softmax ?filled))"
      using lw by (intro sum_list_select_split) simp
    with one masked have "1 - real (length (filter Not (m ! i))) / 1000000
        \<le> sum_list (select (m ! i) (softmax ?filled))" by linarith
    with one small show ?thesis by blast
  qed
  show ?thesis
    using aw wi main by (intro exI [of _ ?w]) (simp only: wi, blast)
qed

text \<open>
  Claim C9, as stated, fails: where the mask excludes every key of a query, all logits of
  the row are the same constant and the softmax is uniform. With a single key, excluded by
  the mask, that key has weight 1 and its value is the output.
\<close>

theorem all_keys_masked_counterexample:
  "attention_weights [[1]] [[1]] (Some [[False]]) None = Inr [[1]] \<and>
   dot_product_attention [[1]] [[1]] [[7]] (Some [[False]]) None = Inr [[7]]"
proof -
  have w: "attention_weights [[1]] [[1]] (Some [[False]]) None = Inr [[1]]"
    by (simp add: attention_weights_def attention_logits_def matmul_transposed_def dot_def
        masked_fill_def softmax_def)
  have "matmul [[1]] [[7]] = [[7]]"
    by (simp add: matmul_def matmul_transposed_def dot_def transpose.simps)
  then show ?thesis
    using w by (simp add: dot_product_attention_def)
qed

text \<open>
  Claim C9, amended: for every call of \<open>dot_product_attention\<close> with a boolean mask, the
  weights of every query row are the softmax of the row's logits with every logit at a
  masked key position replaced by \<open>-1e9\<close>. For every row that has a valid key whose logit is
  at least \<open>-1e9 + 20\<close>, the weights of the row sum to 1, every masked key has a positive
  weight below \<open>1e-6\<close>, and the weights over the valid keys sum to at least 1 minus the
  number of masked keys times \<open>1e-6\<close> (in exact arithmetic).
\<close>

theorem masked_key_weight_negligible:
  assumes "attention_logits q k bias = Inr logits"
    and "i < length logits" and "i < length m"
    and "length (m ! i) = length (logits ! i)"
  shows "\<exists>w. attention_weights q k (Some m) bias = Inr w \<and>
           w ! i = softmax (map (\<lambda>(x, valid). if valid then x else - 1000000000)
                              (zip (logits ! i) (m ! i))) \<and>
           (\<forall>j0 < length (logits ! i).
               m ! i ! j0 \<and> - 1000000000 + 20 \<le> logits ! i ! j0 \<longrightarrow>
               sum_list (w ! i) = 1 \<and>
               (\<forall>j < length (logits ! i). \<not> m ! i ! j \<longrightarrow>
                   0 < w ! i ! j \<and> w ! i ! j < 1 / 1000000) \<and>
               1 - real (length (filter Not (m ! i))) / 1000000
                 \<le> sum_list (select (m ! i) (w ! i)))"
  using assms by (rule masked_weights)

lemma logits_one_two: "attention_logits [[1]] [[1], [1]] None = Inr [[1, 1]]"
  by (simp add: attention_logits_def matmul_transposed_def dot_def)

theorem masked_key_weight_negligible_witness:
  "attention_logits [[1]] [[1], [1]] None = Inr [[1, 1]] \<and>
   (\<exists>w. attention_weights [[1]] [[1], [1]] (Some [[True, False]]) None = Inr w \<and>
      w ! 0 = softmax [1, - 1000000000] \<and>
      sum_list (w ! 0) = 1 \<and> 0 < w ! 0 ! 1 \<and> w ! 0 ! 1 < 1 / 1000000 \<and>
      1 - 1 / 1000000 \<le> sum_list (select [True, False] (w ! 0)))"
proof -
  from masked_key_weight_negligible [OF logits_one_two, of 0 "[[True, False]]"]
  obtain w where w: "attention_weights [[1]] [[1], [1]] (Some [[True, False]]) None = Inr w"
    "w ! 0 = softmax [1, - 1000000000]"
    "\<forall>j0 < 2. [True, False] ! j0 \<and> - 1000000000 + 20 \<le> [1, 1 :: real] ! j0 \<longrightarrow>
       sum_list (w ! 0) = 1 \<and>
       (\<forall>j < 2. \<not> [True, False] ! j \<longrightarrow> 0 < w ! 0 ! j \<and> w ! 0 ! j < 1 / 1000000) \<and>
       1 - real (length (filter Not [True, False])) / 1000000
         \<le> sum_list (select [True, False] (w ! 0))"
    by auto
  have r: "sum_list (w ! 0) = 1 \<and>
       (\<forall>j < 2. \<not> [True, False] ! j \<longrightarrow> 0 < w ! 0 ! j \<and> w ! 0 ! j < 1 / 1000000) \<and>
       1 - real (length (filter Not [True, False])) / 1000000
         \<le> sum_list (select [True, False] (w ! 0))"
    using spec [OF w(3), of 0] by simp
  then have "0 < w ! 0 ! 1 \<and> w ! 0 ! 1 < 1 / 1000000"
    by (auto dest: spec [of _ 1])
  with r w(1,2) logits_one_two show ?thesis by auto
qed

subsection \<open>The unimplemented paths of the encoder\<close>

text \<open>
  On every encoder, batch and input, a call that supplies \<open>trunk_single_cond\<close> to an encoder
  with the flag set does what the call without it does on the encoder without the flag.
\<close>

lemma forward_ignores_trunk_single_cond:
  assumes "with_trunk_single_cond self"
  shows "forward self ops batch token_atoms_act (Some t) trunk_pair_cond
     = forward (self\<lparr>with_trunk_single_cond := False\<rparr>) ops batch token_atoms_act None
         trunk_pair_cond"
  using assms by (simp add: forward_def)

text \<open>
  Claim C1 on the code, on a batch that every conversion accepts: with
  \<open>with_token_atoms_act\<close> and \<open>token_atoms_act\<close> the call raises \<open>NotImplementedError\<close>, with
  \<open>with_trunk_pair_cond\<close> and \<open>trunk_pair_cond\<close> it raises \<open>NotImplementedError\<close>, and with
  \<open>with_trunk_single_cond\<close> and \<open>trunk_single_cond\<close> it returns an output.
\<close>

theorem forward_trunk_single_cond_returns:
  "forward (encoder_plain\<lparr>with_token_atoms_act := True\<rparr>) ops_first batch_one
     (Some trunk_input) None None = Inl NotImplementedError \<and>
   forward (encoder_plain\<lparr>with_trunk_pair_cond := True\<rparr>) ops_first batch_one
     None None (Some trunk_input) = Inl NotImplementedError \<and>
   forward (encoder_plain\<lparr>with_trunk_single_cond := True\<rparr>) ops_first batch_one
     None (Some trunk_input) None
     = Inr \<lparr>token_act = \<lparr>tensor_shape = [1, 1, 3], tensor_data = map Finite [0, 0, 0]\<rparr>,
            skip_connection = \<lparr>tensor_shape = [1, 1, 3], tensor_data = map Finite [0, 0, 0]\<rparr>,
            queries_mask = \<lparr>tensor_shape = [1, 1], tensor_data = map Finite [1]\<rparr>,
            queries_single_cond = \<lparr>tensor_shape = [1, 1, 3], tensor_data = map Finite [0, 0, 0]\<rparr>,
            keys_mask = \<lparr>tensor_shape = [1, 1], tensor_data = map Finite [1]\<rparr>,
            keys_single_cond = \<lparr>tensor_shape = [1, 1, 3], tensor_data = map Finite [0, 0, 0]\<rparr>,
            pair_cond = \<lparr>tensor_shape = [1, 1, 3], tensor_data = map Finite [0, 0, 0]\<rparr>\<rparr>"
  by code_simp

end
